theory Spec2Isabelle
  imports Main "HOL-Library.Word"
begin

unbundle bit_operations_syntax

section \<open>The PMW3610 driver (src/src/pmw3610.c)\<close>

type_synonym u8 = "8 word"
type_synonym u32 = "32 word"

subsection \<open>Constants that pmw3610.h and Kconfig provide\<close>

text \<open>
  \<^verbatim>\<open>pmw3610.h\<close> is not among the sources. Every macro of it that the C file
  uses is a field of this record, so each function takes the header as a parameter and
  a theorem for all \<open>h\<close> holds for whatever values the header gives.
\<close>

record pmw3610_h =
  PMW3610_REG_SPI_CLK_ON_REQ :: u8
  PMW3610_SPI_CLOCK_CMD_ENABLE :: u8
  PMW3610_SPI_CLOCK_CMD_DISABLE :: u8
  T_CLOCK_ON_DELAY_US :: nat
  SPI_WRITE_BIT :: u8
  PMW3610_REG_RES_STEP :: u8
  PMW3610_MAX_CPI :: u32
  PMW3610_MIN_CPI :: u32
  PMW3610_REG_RUN_DOWNSHIFT :: u8
  PMW3610_REG_REST1_DOWNSHIFT :: u8
  PMW3610_REG_REST2_DOWNSHIFT :: u8
  PMW3610_REG_REST1_RATE :: u8
  PMW3610_REG_REST2_RATE :: u8
  PMW3610_REG_REST3_RATE :: u8
  PMW3610_REG_POWER_UP_RESET :: u8
  PMW3610_POWERUP_CMD_RESET :: u8
  PMW3610_REG_OBSERVATION :: u8
  PMW3610_REG_PRODUCT_ID :: u8
  PMW3610_PRODUCT_ID :: u8
  PMW3610_REG_MOTION_BURST :: u8
  PMW3610_BURST_SIZE :: nat
  PMW3610_X_L_POS :: nat
  PMW3610_Y_L_POS :: nat
  PMW3610_XY_H_POS :: nat
  PMW3610_SHUTTER_H_POS :: nat
  PMW3610_SHUTTER_L_POS :: nat

text \<open>
  The Kconfig options the C file reads. A boolean option is \<open>IS_ENABLED\<close> of it,
  \<open>CONFIG_PMW3610_SMART_ALGORITHM\<close> is whether the symbol is defined.
\<close>

record kconfig =
  CONFIG_PMW3610_INIT_POWER_UP_EXTRA_DELAY_MS :: int
  CONFIG_PMW3610_RUN_DOWNSHIFT_TIME_MS :: u32
  CONFIG_PMW3610_REST1_DOWNSHIFT_TIME_MS :: u32
  CONFIG_PMW3610_REST2_DOWNSHIFT_TIME_MS :: u32
  CONFIG_PMW3610_REST1_SAMPLE_TIME_MS :: u32
  CONFIG_PMW3610_REST2_SAMPLE_TIME_MS :: u32
  CONFIG_PMW3610_REST3_SAMPLE_TIME_MS :: u32
  CONFIG_PMW3610_REPORT_INTERVAL_MIN :: int
  CONFIG_PMW3610_SWAP_XY :: bool
  CONFIG_PMW3610_INVERT_X :: bool
  CONFIG_PMW3610_INVERT_Y :: bool
  CONFIG_PMW3610_SMART_ALGORITHM :: bool

text \<open>
  \<open>struct pixart_config\<close>: the fields the C file reads besides the bus and GPIO
  handles.
\<close>

record pixart_config =
  cpi :: u32
  evt_type :: int
  x_input_code :: int
  y_input_code :: int

text \<open>
  \<open>struct pixart_data\<close> (the fields the C file uses), together with the four
  \<open>static\<close> variables of \<open>pmw3610_report_data\<close>. Static storage starts zeroed.
  The 64-bit accumulators and timestamps are \<open>int\<close>: they hold sums of 12-bit samples
  and millisecond uptimes, and an \<open>int64_t\<close> sum that left the 64-bit range would be
  undefined in C; the model does not wrap there.
\<close>

record device =
  ready :: bool
  async_init_step :: nat
  err :: int
  sw_smart_flag :: bool
  dx :: int
  dy :: int
  last_smp_time :: int
  last_rpt_time :: int

text \<open>The errno values of the C library the driver is built against.\<close>

definition EIO :: int where "EIO = 5"
definition EBUSY :: int where "EBUSY = 16"
definition EINVAL :: int where "EINVAL = 22"
definition ENOTSUP :: int where "ENOTSUP = 134"

subsection \<open>The world outside the driver\<close>

text \<open>
  The SPI bus, the kernel's sleep and work queue, the GPIO controller and the input
  subsystem are Zephyr's. Each call the driver makes to them is appended to a trace.
  \<open>init_work\<close> is the delayable work item of the init sequence: the delay it was last
  scheduled with while it waits to run, \<open>None\<close> otherwise.
  The only results the driver reads back are those of SPI transactions: the return code
  of the k-th transaction is \<open>spi_ret w k\<close> and the i-th byte it receives is
  \<open>spi_rx w k i\<close>, for any two such functions, so a statement for all worlds covers
  every behaviour of the bus and of the sensor.
\<close>

datatype io =
    SpiWrite "u8 list"
  | SpiTransceive u8 nat
  | Sleep_us nat
  | GpioInterruptConfigure bool
  | WorkSchedule int
  | InputReport int int int bool

record world =
  spi_ret :: "nat \<Rightarrow> int"
  spi_rx :: "nat \<Rightarrow> nat \<Rightarrow> u8"
  spi_count :: nat
  init_work :: "int option"
  trace :: "io list"

definition emit :: "io \<Rightarrow> world \<Rightarrow> world" where
  "emit e w = w\<lparr>trace := trace w @ [e]\<rparr>"

definition spi_write_dt :: "u8 list \<Rightarrow> world \<Rightarrow> int \<times> world" where
  "spi_write_dt tx w =
     (spi_ret w (spi_count w), emit (SpiWrite tx) (w\<lparr>spi_count := Suc (spi_count w)\<rparr>))"

definition spi_transceive_dt :: "u8 \<Rightarrow> nat \<Rightarrow> world \<Rightarrow> (int \<times> u8 list) \<times> world" where
  "spi_transceive_dt addr len w =
     ((spi_ret w (spi_count w), map (spi_rx w (spi_count w)) [0..<len]),
      emit (SpiTransceive addr len) (w\<lparr>spi_count := Suc (spi_count w)\<rparr>))"

definition k_sleep_usec :: "nat \<Rightarrow> world \<Rightarrow> world" where
  "k_sleep_usec us w = emit (Sleep_us us) w"

definition k_work_schedule :: "int \<Rightarrow> world \<Rightarrow> world" where
  "k_work_schedule delay w = emit (WorkSchedule delay) (w\<lparr>init_work := Some delay\<rparr>)"

definition input_report :: "int \<Rightarrow> int \<Rightarrow> int \<Rightarrow> bool \<Rightarrow> world \<Rightarrow> world" where
  "input_report type code val sync w = emit (InputReport type code val sync) w"

subsection \<open>Register access\<close>

definition pmw3610_read :: "u8 \<Rightarrow> nat \<Rightarrow> world \<Rightarrow> (int \<times> u8 list) \<times> world" where
  "pmw3610_read addr len w = spi_transceive_dt addr len w"

definition pmw3610_read_reg :: "u8 \<Rightarrow> world \<Rightarrow> (int \<times> u8) \<times> world" where
  "pmw3610_read_reg addr w =
     (case pmw3610_read addr 1 w of ((e, buf), w') \<Rightarrow> ((e, hd buf), w'))"

definition pmw3610_write_reg :: "pmw3610_h \<Rightarrow> u8 \<Rightarrow> u8 \<Rightarrow> world \<Rightarrow> int \<times> world" where
  "pmw3610_write_reg h addr val w = spi_write_dt [addr OR SPI_WRITE_BIT h, val] w"

text \<open>
  \<open>pmw3610_write\<close>: the return codes of the clock-enable and clock-disable writes are
  dropped; the inner write's error returns at once.
\<close>

definition pmw3610_write :: "pmw3610_h \<Rightarrow> u8 \<Rightarrow> u8 \<Rightarrow> world \<Rightarrow> int \<times> world" where
  "pmw3610_write h reg val w =
     (case pmw3610_write_reg h (PMW3610_REG_SPI_CLK_ON_REQ h) (PMW3610_SPI_CLOCK_CMD_ENABLE h) w of
        (_, w1) \<Rightarrow>
     (case pmw3610_write_reg h reg val (k_sleep_usec (T_CLOCK_ON_DELAY_US h) w1) of
        (e, w2) \<Rightarrow>
          if e \<noteq> 0 then (e, w2)
          else (0, snd (pmw3610_write_reg h (PMW3610_REG_SPI_CLK_ON_REQ h)
                          (PMW3610_SPI_CLOCK_CMD_DISABLE h) w2))))"

subsection \<open>Configuration functions\<close>

text \<open>
  The \<open>for\<close> loop of \<open>set_cpi\<close> over the three (address, data) pairs: it stops at the
  first write that returns non-zero and leaves that code in the local \<open>err\<close>.
\<close>

fun set_cpi_loop :: "pmw3610_h \<Rightarrow> (u8 \<times> u8) list \<Rightarrow> int \<Rightarrow> world \<Rightarrow> int \<times> world" where
  "set_cpi_loop h [] e w = (e, w)"
| "set_cpi_loop h ((a, d) # rest) e w =
     (case pmw3610_write_reg h a d w of
        (e', w') \<Rightarrow> if e' \<noteq> 0 then (e', w') else set_cpi_loop h rest e' w')"

definition set_cpi :: "pmw3610_h \<Rightarrow> u32 \<Rightarrow> world \<Rightarrow> int \<times> world" where
  "set_cpi h n w =
     (if n > PMW3610_MAX_CPI h \<or> n < PMW3610_MIN_CPI h then (- EINVAL, w)
      else
        let value = (ucast (n div 200) :: u8);
            addr = [0x7F, PMW3610_REG_RES_STEP h, 0x7F];
            data = [0xFF, value, 0x00];
            w1 = snd (pmw3610_write_reg h (PMW3610_REG_SPI_CLK_ON_REQ h)
                        (PMW3610_SPI_CLOCK_CMD_ENABLE h) w);
            w2 = k_sleep_usec (T_CLOCK_ON_DELAY_US h) w1
        in case set_cpi_loop h (zip addr data) 0 w2 of
             (e, w3) \<Rightarrow>
               let w4 = snd (pmw3610_write_reg h (PMW3610_REG_SPI_CLK_ON_REQ h)
                               (PMW3610_SPI_CLOCK_CMD_DISABLE h) w3)
               in if e \<noteq> 0 then (e, w4) else (0, w4))"

definition set_sample_time :: "pmw3610_h \<Rightarrow> u8 \<Rightarrow> u32 \<Rightarrow> world \<Rightarrow> int \<times> world" where
  "set_sample_time h reg_addr sample_time w =
     (let maxtime = (2550 :: u32); mintime = (10 :: u32) in
      if sample_time > maxtime \<or> sample_time < mintime then (- EINVAL, w)
      else pmw3610_write h reg_addr (ucast (sample_time div mintime)) w)"

text \<open>
  \<open>set_downshift_time\<close>. The \<open>switch\<close> picks the bounds by register; its case labels
  are tried in the order written. The products are taken in \<open>uint32_t\<close>, which is what
  the C computes as long as they fit an \<open>int\<close>. \<open>None\<close> is the failed
  \<open>__ASSERT_NO_MSG\<close>; in a build without assertions it is the division by
  \<open>mintime = 0\<close> that follows, undefined in C.
\<close>

definition downshift_bounds :: "pmw3610_h \<Rightarrow> kconfig \<Rightarrow> u8 \<Rightarrow> (u32 \<times> u32) option" where
  "downshift_bounds h c reg_addr =
     (if reg_addr = PMW3610_REG_RUN_DOWNSHIFT h then Some (8160, 32)
      else if reg_addr = PMW3610_REG_REST1_DOWNSHIFT h
      then Some (255 * 16 * CONFIG_PMW3610_REST1_SAMPLE_TIME_MS c,
                 16 * CONFIG_PMW3610_REST1_SAMPLE_TIME_MS c)
      else if reg_addr = PMW3610_REG_REST2_DOWNSHIFT h
      then Some (255 * 128 * CONFIG_PMW3610_REST2_SAMPLE_TIME_MS c,
                 128 * CONFIG_PMW3610_REST2_SAMPLE_TIME_MS c)
      else None)"

definition set_downshift_time ::
  "pmw3610_h \<Rightarrow> kconfig \<Rightarrow> u8 \<Rightarrow> u32 \<Rightarrow> world \<Rightarrow> (int \<times> world) option" where
  "set_downshift_time h c reg_addr time w =
     (case downshift_bounds h c reg_addr of
        None \<Rightarrow> Some (- ENOTSUP, w)
      | Some (maxtime, mintime) \<Rightarrow>
          if time > maxtime \<or> time < mintime then Some (- EINVAL, w)
          else if \<not> (mintime > 0 \<and> maxtime div mintime \<le> 255) then None
          else Some (pmw3610_write h reg_addr (ucast (time div mintime)) w))"

definition set_interrupt :: "bool \<Rightarrow> world \<Rightarrow> world" where
  "set_interrupt en w = emit (GpioInterruptConfigure en) w"

subsection \<open>The init sequence\<close>

definition ASYNC_INIT_STEP_POWER_UP :: nat where "ASYNC_INIT_STEP_POWER_UP = 0"
definition ASYNC_INIT_STEP_CLEAR_OB1 :: nat where "ASYNC_INIT_STEP_CLEAR_OB1 = 1"
definition ASYNC_INIT_STEP_CHECK_OB1 :: nat where "ASYNC_INIT_STEP_CHECK_OB1 = 2"
definition ASYNC_INIT_STEP_CONFIGURE :: nat where "ASYNC_INIT_STEP_CONFIGURE = 3"
definition ASYNC_INIT_STEP_COUNT :: nat where "ASYNC_INIT_STEP_COUNT = 4"

definition async_init_delay :: "kconfig \<Rightarrow> int list" where
  "async_init_delay c = [10 + CONFIG_PMW3610_INIT_POWER_UP_EXTRA_DELAY_MS c, 200, 50, 0]"

definition pmw3610_async_init_power_up :: "pmw3610_h \<Rightarrow> world \<Rightarrow> int \<times> world" where
  "pmw3610_async_init_power_up h w =
     (case pmw3610_write_reg h (PMW3610_REG_POWER_UP_RESET h) (PMW3610_POWERUP_CMD_RESET h) w of
        (ret, w') \<Rightarrow> if ret < 0 then (ret, w') else (0, w'))"

definition pmw3610_async_init_clear_ob1 :: "pmw3610_h \<Rightarrow> world \<Rightarrow> int \<times> world" where
  "pmw3610_async_init_clear_ob1 h w = pmw3610_write h (PMW3610_REG_OBSERVATION h) 0x00 w"

definition pmw3610_async_init_check_ob1 :: "pmw3610_h \<Rightarrow> world \<Rightarrow> int \<times> world" where
  "pmw3610_async_init_check_ob1 h w =
     (case pmw3610_read_reg (PMW3610_REG_OBSERVATION h) w of
        ((e, value), w1) \<Rightarrow>
          if e \<noteq> 0 then (e, w1)
          else if value AND 0x0F \<noteq> 0x0F then (- EINVAL, w1)
          else
            (case pmw3610_read_reg (PMW3610_REG_PRODUCT_ID h) w1 of
               ((e', product_id), w2) \<Rightarrow>
                 if e' \<noteq> 0 then (e', w2)
                 else if product_id \<noteq> PMW3610_PRODUCT_ID h then (- EIO, w2)
                 else (0, w2)))"

text \<open>
  The loop of \<open>pmw3610_async_init_configure\<close> that reads and drops the motion
  registers \<open>0x02 .. 0x05\<close> while \<open>err\<close> is zero.
\<close>

fun clear_motion_regs :: "u8 list \<Rightarrow> int \<Rightarrow> world \<Rightarrow> int \<times> world" where
  "clear_motion_regs [] e w = (e, w)"
| "clear_motion_regs (reg # regs) e w =
     (if e \<noteq> 0 then (e, w)
      else case pmw3610_read_reg reg w of ((e', _), w') \<Rightarrow> clear_motion_regs regs e' w')"

text \<open>\<open>if (!err) { err = f(...); }\<close>, for an \<open>f\<close> that may fail its assertion.\<close>

definition if_no_err ::
  "(world \<Rightarrow> (int \<times> world) option) \<Rightarrow> int \<times> world \<Rightarrow> (int \<times> world) option" where
  "if_no_err f r = (case r of (e, w) \<Rightarrow> if e = 0 then f w else Some (e, w))"

definition pmw3610_async_init_configure ::
  "pmw3610_h \<Rightarrow> kconfig \<Rightarrow> pixart_config \<Rightarrow> world \<Rightarrow> (int \<times> world) option" where
  "pmw3610_async_init_configure h c config w =
     Option.bind (Option.bind (Option.bind (Option.bind (Option.bind (Option.bind (Option.bind
       (Some (clear_motion_regs [0x02, 0x03, 0x04, 0x05] 0 w))
       (if_no_err (\<lambda>w. Some (set_cpi h (cpi config) w))))
       (if_no_err (set_downshift_time h c (PMW3610_REG_RUN_DOWNSHIFT h)
                     (CONFIG_PMW3610_RUN_DOWNSHIFT_TIME_MS c))))
       (if_no_err (set_downshift_time h c (PMW3610_REG_REST1_DOWNSHIFT h)
                     (CONFIG_PMW3610_REST1_DOWNSHIFT_TIME_MS c))))
       (if_no_err (set_downshift_time h c (PMW3610_REG_REST2_DOWNSHIFT h)
                     (CONFIG_PMW3610_REST2_DOWNSHIFT_TIME_MS c))))
       (if_no_err (\<lambda>w. Some (set_sample_time h (PMW3610_REG_REST1_RATE h)
                     (CONFIG_PMW3610_REST1_SAMPLE_TIME_MS c) w))))
       (if_no_err (\<lambda>w. Some (set_sample_time h (PMW3610_REG_REST2_RATE h)
                     (CONFIG_PMW3610_REST2_SAMPLE_TIME_MS c) w))))
       (if_no_err (\<lambda>w. Some (set_sample_time h (PMW3610_REG_REST3_RATE h)
                     (CONFIG_PMW3610_REST3_SAMPLE_TIME_MS c) w)))"

text \<open>
  The table \<open>async_init_fn\<close>. It has \<open>ASYNC_INIT_STEP_COUNT\<close> entries; a call through
  an index beyond it is undefined in C and \<open>None\<close> here.
\<close>

definition async_init_fn ::
  "pmw3610_h \<Rightarrow> kconfig \<Rightarrow> pixart_config \<Rightarrow> nat \<Rightarrow> world \<Rightarrow> (int \<times> world) option" where
  "async_init_fn h c config step w =
     (if step = ASYNC_INIT_STEP_POWER_UP then Some (pmw3610_async_init_power_up h w)
      else if step = ASYNC_INIT_STEP_CLEAR_OB1 then Some (pmw3610_async_init_clear_ob1 h w)
      else if step = ASYNC_INIT_STEP_CHECK_OB1 then Some (pmw3610_async_init_check_ob1 h w)
      else if step = ASYNC_INIT_STEP_CONFIGURE then pmw3610_async_init_configure h c config w
      else None)"

definition pmw3610_async_init ::
  "pmw3610_h \<Rightarrow> kconfig \<Rightarrow> pixart_config \<Rightarrow> device \<Rightarrow> world \<Rightarrow> (device \<times> world) option" where
  "pmw3610_async_init h c config d w =
     (case async_init_fn h c config (async_init_step d) w of
        None \<Rightarrow> None
      | Some (e, w1) \<Rightarrow>
          let d1 = d\<lparr>err := e\<rparr> in
          if e \<noteq> 0 then Some (d1, w1)
          else
            let d2 = d1\<lparr>async_init_step := Suc (async_init_step d1)\<rparr> in
            if async_init_step d2 = ASYNC_INIT_STEP_COUNT
            then Some (d2\<lparr>ready := True\<rparr>, set_interrupt True w1)
            else Some (d2, k_work_schedule (async_init_delay c ! async_init_step d2) w1))"

text \<open>
  The kernel's side of the delayable work: when \<open>init_work\<close> is pending, the work queue
  takes it off the queue and runs its handler \<open>pmw3610_async_init\<close>; when nothing is
  pending, nothing runs. \<open>init_work_runs n\<close> is \<open>n\<close> turns of the work queue.
\<close>

definition init_work_run ::
  "pmw3610_h \<Rightarrow> kconfig \<Rightarrow> pixart_config \<Rightarrow> device \<Rightarrow> world \<Rightarrow> (device \<times> world) option" where
  "init_work_run h c config d w =
     (case init_work w of
        None \<Rightarrow> Some (d, w)
      | Some _ \<Rightarrow> pmw3610_async_init h c config d (w\<lparr>init_work := None\<rparr>))"

fun init_work_runs ::
  "nat \<Rightarrow> pmw3610_h \<Rightarrow> kconfig \<Rightarrow> pixart_config \<Rightarrow> device \<Rightarrow> world \<Rightarrow> (device \<times> world) option" where
  "init_work_runs 0 h c config d w = Some (d, w)"
| "init_work_runs (Suc n) h c config d w =
     (case init_work_runs n h c config d w of
        None \<Rightarrow> None
      | Some (d', w') \<Rightarrow> init_work_run h c config d' w')"

subsection \<open>The report pipeline\<close>

text \<open>
  \<open>TOINT16(val, bits)\<close> stores \<open>val\<close> in a signed bit-field of \<open>bits\<close> bits and reads
  it back: the low \<open>bits\<close> bits of \<open>val\<close>, read as two's complement.
  \<open>to_int16\<close> is the cast \<open>(int16_t)\<close>, \<open>CLAMP\<close> is Zephyr's macro.
\<close>

definition TOINT16 :: "int \<Rightarrow> nat \<Rightarrow> int" where
  "TOINT16 val bits = signed_take_bit (bits - 1) val"

definition to_int16 :: "int \<Rightarrow> int" where
  "to_int16 v = signed_take_bit 15 v"

definition INT16_MIN :: int where "INT16_MIN = - 32768"
definition INT16_MAX :: int where "INT16_MAX = 32767"

definition CLAMP :: "int \<Rightarrow> int \<Rightarrow> int \<Rightarrow> int" where
  "CLAMP val low high = (if val \<le> low then low else min val high)"

text \<open>Lines 415-416: the two axes out of the burst buffer.\<close>

definition decode_xy :: "pmw3610_h \<Rightarrow> u8 list \<Rightarrow> int \<times> int" where
  "decode_xy h buf =
     (TOINT16 (uint (buf ! PMW3610_X_L_POS h)
               + push_bit 4 (uint (buf ! PMW3610_XY_H_POS h) AND 0xF0)) 12,
      TOINT16 (uint (buf ! PMW3610_Y_L_POS h)
               + push_bit 8 (uint (buf ! PMW3610_XY_H_POS h) AND 0x0F)) 12)"

text \<open>Lines 418-428: swap, then negate \<open>x\<close>, then negate \<open>y\<close>, each if configured.\<close>

definition axis_transform :: "kconfig \<Rightarrow> int \<times> int \<Rightarrow> int \<times> int" where
  "axis_transform c p =
     (let p1 = (if CONFIG_PMW3610_SWAP_XY c then (let a = fst p in (snd p, a)) else p);
          p2 = (if CONFIG_PMW3610_INVERT_X c then (to_int16 (- fst p1), snd p1) else p1);
          p3 = (if CONFIG_PMW3610_INVERT_Y c then (fst p2, to_int16 (- snd p2)) else p2)
      in p3)"

text \<open>
  Lines 430-441: the smart algorithm. The result of \<open>pmw3610_write\<close> is dropped. The
  second \<open>if\<close> reads the flag the first one may have cleared.
\<close>

definition shutter_of :: "pmw3610_h \<Rightarrow> u8 list \<Rightarrow> int" where
  "shutter_of h buf =
     to_int16 (push_bit 8 (to_int16 (uint (buf ! PMW3610_SHUTTER_H_POS h) AND 0x01))
               + uint (buf ! PMW3610_SHUTTER_L_POS h))"

definition smart_algorithm :: "pmw3610_h \<Rightarrow> int \<Rightarrow> device \<times> world \<Rightarrow> device \<times> world" where
  "smart_algorithm h shutter s =
     (let s1 = (case s of (d, w) \<Rightarrow>
                  if sw_smart_flag d \<and> shutter < 45
                  then (d\<lparr>sw_smart_flag := False\<rparr>, snd (pmw3610_write h 0x32 0x00 w))
                  else (d, w))
      in case s1 of (d, w) \<Rightarrow>
           if \<not> sw_smart_flag d \<and> shutter > 45
           then (d\<lparr>sw_smart_flag := True\<rparr>, snd (pmw3610_write h 0x32 0x80 w))
           else (d, w))"

text \<open>Lines 443-454: purge stale deltas, stamp the sample, accumulate.\<close>

definition purge_stale :: "kconfig \<Rightarrow> int \<Rightarrow> device \<Rightarrow> device" where
  "purge_stale c now d =
     (if CONFIG_PMW3610_REPORT_INTERVAL_MIN c > 0
      then (if now - last_smp_time d \<ge> CONFIG_PMW3610_REPORT_INTERVAL_MIN c
            then d\<lparr>dx := 0, dy := 0\<rparr> else d)\<lparr>last_smp_time := now\<rparr>
      else d)"

definition accumulate :: "int \<times> int \<Rightarrow> device \<Rightarrow> device" where
  "accumulate p d = d\<lparr>dx := dx d + fst p, dy := dy d + snd p\<rparr>"

text \<open>Lines 463-483: clamp, and report what is not zero.\<close>

definition fetch_and_report ::
  "kconfig \<Rightarrow> pixart_config \<Rightarrow> int \<Rightarrow> device \<Rightarrow> world \<Rightarrow> device \<times> world" where
  "fetch_and_report c config now d w =
     (let rx = to_int16 (CLAMP (dx d) INT16_MIN INT16_MAX);
          ry = to_int16 (CLAMP (dy d) INT16_MIN INT16_MAX);
          have_x = (rx \<noteq> 0);
          have_y = (ry \<noteq> 0)
      in if have_x \<or> have_y
         then
           let d1 = (if CONFIG_PMW3610_REPORT_INTERVAL_MIN c > 0
                     then d\<lparr>last_rpt_time := now\<rparr> else d);
               d2 = d1\<lparr>dx := 0, dy := 0\<rparr>;
               w1 = (if have_x
                     then input_report (evt_type config) (x_input_code config) rx (\<not> have_y) w
                     else w);
               w2 = (if have_y
                     then input_report (evt_type config) (y_input_code config) ry True w1
                     else w1)
           in (d2, w2)
         else (d, w))"

text \<open>
  \<open>pmw3610_report_data\<close>, for a build with \<open>AUTOMOUSE_LAYER = 0\<close> (the block under
  \<open>#if AUTOMOUSE_LAYER > 0\<close> is then compiled out). \<open>now\<close> is what \<open>k_uptime_get()\<close>
  returns. The buffer has \<open>PMW3610_BURST_SIZE\<close> bytes; an index of the header that lies
  beyond it is an out-of-bounds read in C and \<open>None\<close> here.
\<close>

definition buf_index_ok :: "pmw3610_h \<Rightarrow> kconfig \<Rightarrow> bool" where
  "buf_index_ok h c =
     (PMW3610_X_L_POS h < PMW3610_BURST_SIZE h \<and> PMW3610_Y_L_POS h < PMW3610_BURST_SIZE h
      \<and> PMW3610_XY_H_POS h < PMW3610_BURST_SIZE h
      \<and> (\<not> CONFIG_PMW3610_SMART_ALGORITHM c
           \<or> (PMW3610_SHUTTER_H_POS h < PMW3610_BURST_SIZE h
               \<and> PMW3610_SHUTTER_L_POS h < PMW3610_BURST_SIZE h)))"

definition pmw3610_report_data ::
  "pmw3610_h \<Rightarrow> kconfig \<Rightarrow> pixart_config \<Rightarrow> int \<Rightarrow> device \<Rightarrow> world
     \<Rightarrow> (int \<times> device \<times> world) option" where
  "pmw3610_report_data h c config now d w =
     (if \<not> ready d then Some (- EBUSY, d, w)
      else case pmw3610_read (PMW3610_REG_MOTION_BURST h) (PMW3610_BURST_SIZE h) w of
        ((e, buf), w1) \<Rightarrow>
          if e \<noteq> 0 then Some (e, d, w1)
          else if \<not> buf_index_ok h c then None
          else
            let p = axis_transform c (decode_xy h buf);
                s = (if CONFIG_PMW3610_SMART_ALGORITHM c
                     then smart_algorithm h (shutter_of h buf) (d, w1) else (d, w1));
                d3 = accumulate p (purge_stale c now (fst s))
            in if CONFIG_PMW3610_REPORT_INTERVAL_MIN c > 0
                  \<and> now - last_rpt_time d3 < CONFIG_PMW3610_REPORT_INTERVAL_MIN c
               then Some (0, d3, snd s)
               else case fetch_and_report c config now d3 (snd s) of
                      (d4, w4) \<Rightarrow> Some (e, d4, w4))"

definition pmw3610_work_callback ::
  "pmw3610_h \<Rightarrow> kconfig \<Rightarrow> pixart_config \<Rightarrow> int \<Rightarrow> device \<Rightarrow> world
     \<Rightarrow> (device \<times> world) option" where
  "pmw3610_work_callback h c config now d w =
     (case pmw3610_report_data h c config now d w of
        None \<Rightarrow> None
      | Some (_, d', w') \<Rightarrow> Some (d', set_interrupt True w'))"

subsection \<open>Trace entries and sample inputs\<close>

text \<open>
  Names for the trace entries of a register write and of the clock handshake, and a
  sample header, configuration and world for evaluating the model at concrete inputs.
  The sample values are inputs only: no theorem for all headers depends on them.
\<close>

definition wr :: "pmw3610_h \<Rightarrow> u8 \<Rightarrow> u8 \<Rightarrow> io" where
  "wr h a v = SpiWrite [a OR SPI_WRITE_BIT h, v]"

definition clk_on :: "pmw3610_h \<Rightarrow> io" where
  "clk_on h = wr h (PMW3610_REG_SPI_CLK_ON_REQ h) (PMW3610_SPI_CLOCK_CMD_ENABLE h)"

definition clk_off :: "pmw3610_h \<Rightarrow> io" where
  "clk_off h = wr h (PMW3610_REG_SPI_CLK_ON_REQ h) (PMW3610_SPI_CLOCK_CMD_DISABLE h)"

definition clk_wait :: "pmw3610_h \<Rightarrow> io" where
  "clk_wait h = Sleep_us (T_CLOCK_ON_DELAY_US h)"

definition sample_h :: pmw3610_h where
  "sample_h = \<lparr>PMW3610_REG_SPI_CLK_ON_REQ = 0x41, PMW3610_SPI_CLOCK_CMD_ENABLE = 0xBA,
     PMW3610_SPI_CLOCK_CMD_DISABLE = 0xB5, T_CLOCK_ON_DELAY_US = 300, SPI_WRITE_BIT = 0x80,
     PMW3610_REG_RES_STEP = 0x05, PMW3610_MAX_CPI = 3200, PMW3610_MIN_CPI = 200,
     PMW3610_REG_RUN_DOWNSHIFT = 0x1B, PMW3610_REG_REST1_DOWNSHIFT = 0x1D,
     PMW3610_REG_REST2_DOWNSHIFT = 0x1F, PMW3610_REG_REST1_RATE = 0x1C,
     PMW3610_REG_REST2_RATE = 0x1E, PMW3610_REG_REST3_RATE = 0x20,
     PMW3610_REG_POWER_UP_RESET = 0x3A, PMW3610_POWERUP_CMD_RESET = 0x5A,
     PMW3610_REG_OBSERVATION = 0x2D, PMW3610_REG_PRODUCT_ID = 0x00,
     PMW3610_PRODUCT_ID = 0x3E, PMW3610_REG_MOTION_BURST = 0x12, PMW3610_BURST_SIZE = 7,
     PMW3610_X_L_POS = 1, PMW3610_Y_L_POS = 2, PMW3610_XY_H_POS = 3,
     PMW3610_SHUTTER_H_POS = 5, PMW3610_SHUTTER_L_POS = 6\<rparr>"

definition sample_kconfig :: kconfig where
  "sample_kconfig = \<lparr>CONFIG_PMW3610_INIT_POWER_UP_EXTRA_DELAY_MS = 0,
     CONFIG_PMW3610_RUN_DOWNSHIFT_TIME_MS = 128,
     CONFIG_PMW3610_REST1_DOWNSHIFT_TIME_MS = 9600,
     CONFIG_PMW3610_REST2_DOWNSHIFT_TIME_MS = 150000,
     CONFIG_PMW3610_REST1_SAMPLE_TIME_MS = 40,
     CONFIG_PMW3610_REST2_SAMPLE_TIME_MS = 100,
     CONFIG_PMW3610_REST3_SAMPLE_TIME_MS = 500,
     CONFIG_PMW3610_REPORT_INTERVAL_MIN = 12,
     CONFIG_PMW3610_SWAP_XY = True, CONFIG_PMW3610_INVERT_X = True,
     CONFIG_PMW3610_INVERT_Y = False, CONFIG_PMW3610_SMART_ALGORITHM = True\<rparr>"

definition sample_config :: pixart_config where
  "sample_config = \<lparr>cpi = 800, evt_type = 2, x_input_code = 0, y_input_code = 1\<rparr>"

definition fresh_world :: "(nat \<Rightarrow> int) \<Rightarrow> (nat \<Rightarrow> nat \<Rightarrow> u8) \<Rightarrow> world" where
  "fresh_world ret rx = \<lparr>spi_ret = ret, spi_rx = rx, spi_count = 0, init_work = None, trace = []\<rparr>"

definition zeroed_device :: device where
  "zeroed_device = \<lparr>ready = False, async_init_step = 0, err = 0, sw_smart_flag = False,
     dx = 0, dy = 0, last_smp_time = 0, last_rpt_time = 0\<rparr>"

text \<open>
  Names for the intermediate values of one call of \<open>pmw3610_report_data\<close>: the bytes
  the burst read receives, the world after the read, the transformed sample, the device
  and world after the smart algorithm, and the events reported for candidates
  \<open>rx\<close>, \<open>ry\<close>.
\<close>

definition burst_buf :: "pmw3610_h \<Rightarrow> world \<Rightarrow> u8 list" where
  "burst_buf h w = map (spi_rx w (spi_count w)) [0..<PMW3610_BURST_SIZE h]"

definition after_burst_read :: "pmw3610_h \<Rightarrow> world \<Rightarrow> world" where
  "after_burst_read h w =
     w\<lparr>spi_count := Suc (spi_count w),
       trace := trace w @ [SpiTransceive (PMW3610_REG_MOTION_BURST h) (PMW3610_BURST_SIZE h)]\<rparr>"

definition sample_of :: "pmw3610_h \<Rightarrow> kconfig \<Rightarrow> world \<Rightarrow> int \<times> int" where
  "sample_of h c w = axis_transform c (decode_xy h (burst_buf h w))"

definition after_smart :: "pmw3610_h \<Rightarrow> kconfig \<Rightarrow> device \<Rightarrow> world \<Rightarrow> device \<times> world" where
  "after_smart h c d w =
     (if CONFIG_PMW3610_SMART_ALGORITHM c
      then smart_algorithm h (shutter_of h (burst_buf h w)) (d, after_burst_read h w)
      else (d, after_burst_read h w))"

definition report_events :: "pixart_config \<Rightarrow> int \<Rightarrow> int \<Rightarrow> io list" where
  "report_events config rx ry =
     (if rx \<noteq> 0 then [InputReport (evt_type config) (x_input_code config) rx (ry = 0)] else [])
     @ (if ry \<noteq> 0 then [InputReport (evt_type config) (y_input_code config) ry True] else [])"

text \<open>The interrupt configurations among a list of trace entries.\<close>

definition irq_configs :: "io list \<Rightarrow> io list" where
  "irq_configs xs = filter (\<lambda>e. e = GpioInterruptConfigure True \<or> e = GpioInterruptConfigure False) xs"

section \<open>What each bus operation leaves in the world\<close>

lemma pmw3610_write_reg_eq:
  "pmw3610_write_reg h a v w =
     (spi_ret w (spi_count w),
      w\<lparr>spi_count := Suc (spi_count w), trace := trace w @ [wr h a v]\<rparr>)"
  by (simp add: pmw3610_write_reg_def spi_write_dt_def emit_def wr_def)

lemma k_sleep_usec_eq: "k_sleep_usec us w = w\<lparr>trace := trace w @ [Sleep_us us]\<rparr>"
  by (simp add: k_sleep_usec_def emit_def)

lemma pmw3610_read_eq:
  "pmw3610_read a n w =
     ((spi_ret w (spi_count w), map (spi_rx w (spi_count w)) [0..<n]),
      w\<lparr>spi_count := Suc (spi_count w), trace := trace w @ [SpiTransceive a n]\<rparr>)"
  by (simp add: pmw3610_read_def spi_transceive_dt_def emit_def)

lemma pmw3610_read_reg_eq:
  "pmw3610_read_reg a w =
     ((spi_ret w (spi_count w), spi_rx w (spi_count w) 0),
      w\<lparr>spi_count := Suc (spi_count w), trace := trace w @ [SpiTransceive a 1]\<rparr>)"
  by (simp add: pmw3610_read_reg_def pmw3610_read_eq)

lemma pmw3610_write_eq:
  "pmw3610_write h reg val w =
     (if spi_ret w (Suc (spi_count w)) \<noteq> 0
      then (spi_ret w (Suc (spi_count w)),
            w\<lparr>spi_count := spi_count w + 2,
              trace := trace w @ [clk_on h, clk_wait h, wr h reg val]\<rparr>)
      else (0, w\<lparr>spi_count := spi_count w + 3,
                 trace := trace w @ [clk_on h, clk_wait h, wr h reg val, clk_off h]\<rparr>))"
  by (simp add: pmw3610_write_def pmw3610_write_reg_eq k_sleep_usec_eq clk_on_def clk_off_def
      clk_wait_def)

lemma set_cpi_eq:
  assumes "\<not> (n > PMW3610_MAX_CPI h \<or> n < PMW3610_MIN_CPI h)"
  shows "set_cpi h n w =
     (let k = spi_count w; v = (ucast (n div 200) :: u8);
          pre = trace w @ [clk_on h, clk_wait h] in
      if spi_ret w (k + 1) \<noteq> 0
      then (spi_ret w (k + 1),
            w\<lparr>spi_count := k + 3, trace := pre @ [wr h 0x7F 0xFF, clk_off h]\<rparr>)
      else if spi_ret w (k + 2) \<noteq> 0
      then (spi_ret w (k + 2),
            w\<lparr>spi_count := k + 4,
              trace := pre @ [wr h 0x7F 0xFF, wr h (PMW3610_REG_RES_STEP h) v, clk_off h]\<rparr>)
      else (spi_ret w (k + 3),
            w\<lparr>spi_count := k + 5,
              trace := pre @ [wr h 0x7F 0xFF, wr h (PMW3610_REG_RES_STEP h) v,
                              wr h 0x7F 0x00, clk_off h]\<rparr>))"
  using assms
  by (simp add: set_cpi_def pmw3610_write_reg_eq k_sleep_usec_eq clk_on_def clk_off_def
      clk_wait_def Let_def eval_nat_numeral)

lemma set_cpi_out_of_range:
  "n > PMW3610_MAX_CPI h \<or> n < PMW3610_MIN_CPI h \<Longrightarrow> set_cpi h n w = (- EINVAL, w)"
  by (simp add: set_cpi_def)

section \<open>Bits and bounds\<close>

lemma TOINT16_12:
  assumes "0 \<le> r" and "r < 4096"
  shows "TOINT16 r 12 = (if r < 2048 then r else r - 4096)"
proof (cases "r < 2048")
  case True
  with assms have "(r + 2048) mod 4096 = r + 2048"
    by (intro mod_pos_pos_trivial) simp_all
  with True show ?thesis
    by (simp add: TOINT16_def signed_take_bit_eq_take_bit_shift take_bit_eq_mod)
next
  case False
  have "r + 2048 = (r - 2048) + 4096"
    by simp
  then have "(r + 2048) mod 4096 = ((r - 2048) + 4096) mod 4096"
    by (rule arg_cong)
  also have "\<dots> = (r - 2048) mod 4096"
    by (rule mod_add_self2)
  also from False assms have "\<dots> = r - 2048"
    by (intro mod_pos_pos_trivial) simp_all
  finally show ?thesis using False
    by (simp add: TOINT16_def signed_take_bit_eq_take_bit_shift take_bit_eq_mod)
qed

lemma int_and_0xF0: "(k::int) AND 0xF0 = push_bit 4 (take_bit 4 (drop_bit 4 k))"
proof -
  have "(0xF0::int) = push_bit 4 (mask 4)"
    by (simp add: mask_eq_exp_minus_1 push_bit_eq_mult)
  then show ?thesis
    by (auto simp add: bit_eq_iff bit_simps)
qed

lemma int_and_0x0F: "(k::int) AND 0x0F = take_bit 4 k"
proof -
  have "(0x0F::int) = mask 4"
    by (simp add: mask_eq_exp_minus_1)
  then show ?thesis
    by (simp add: take_bit_eq_mask)
qed

lemma int_and_0x01: "(k::int) AND 0x01 = k mod 2"
  by (simp add: and_one_eq)

lemma hi_nibble: "push_bit 4 (uint (b::u8) AND 0xF0) = 256 * (uint b div 16)"
proof -
  have "uint b < 256" using uint_bounded [of b] by simp
  moreover have "0 \<le> uint b" by simp
  ultimately have "(uint b div 16) mod 16 = uint b div 16"
    by (intro mod_pos_pos_trivial) (simp_all add: pos_imp_zdiv_nonneg_iff)
  then show ?thesis
    by (simp add: int_and_0xF0 push_bit_eq_mult take_bit_eq_mod drop_bit_eq_div)
qed

lemma lo_nibble: "push_bit 8 (uint (b::u8) AND 0x0F) = 256 * (uint b mod 16)"
  by (simp add: int_and_0x0F push_bit_eq_mult take_bit_eq_mod)


section \<open>Claims\<close>

text \<open>
  C1 (fails on the code). The claim: \<open>pmw3610_write\<close> issues the clock-disable write
  also when the inner register write failed. Evaluated with a bus whose second
  transaction (the inner write) returns \<open>-5\<close>: \<open>pmw3610_write\<close> returns \<open>-5\<close>, and the
  trace ends with the inner write; the clock-disable write is not in it.
\<close>

theorem pmw3610_write_inner_error_skips_clock_disable:
  "fst (pmw3610_write sample_h 0x2D 0x00 (fresh_world (\<lambda>k. if k = 1 then - 5 else 0) (\<lambda>k i. 0)))
     = - 5
   \<and> trace (snd (pmw3610_write sample_h 0x2D 0x00
                     (fresh_world (\<lambda>k. if k = 1 then - 5 else 0) (\<lambda>k i. 0))))
     = [SpiWrite [0xC1, 0xBA], Sleep_us 300, SpiWrite [0xAD, 0x00]]
   \<and> clk_off sample_h = SpiWrite [0xC1, 0xB5]
   \<and> clk_off sample_h \<notin> set (trace (snd (pmw3610_write sample_h 0x2D 0x00
                     (fresh_world (\<lambda>k. if k = 1 then - 5 else 0) (\<lambda>k i. 0)))))"
  by (simp add: pmw3610_write_eq fresh_world_def sample_h_def clk_on_def clk_off_def
      clk_wait_def wr_def)

text \<open>
  C9. In \<open>set_cpi\<close> with an input in range, when the first, second or third payload
  write is the first to fail, the payload writes after it are not issued, the
  clock-disable write is issued after it, and \<open>set_cpi\<close> returns the failing write's
  return code. (\<open>k\<close> is the index of the clock-enable transaction.)
\<close>

theorem set_cpi_payload_error_still_disables_clock:
  assumes "\<not> (n > PMW3610_MAX_CPI h \<or> n < PMW3610_MIN_CPI h)"
    and "k = spi_count w"
    and "v = (ucast (n div 200) :: u8)"
  shows
    "(spi_ret w (k + 1) \<noteq> 0 \<longrightarrow>
        set_cpi h n w =
          (spi_ret w (k + 1),
           w\<lparr>spi_count := k + 3,
             trace := trace w @ [clk_on h, clk_wait h, wr h 0x7F 0xFF, clk_off h]\<rparr>))
   \<and> (spi_ret w (k + 1) = 0 \<and> spi_ret w (k + 2) \<noteq> 0 \<longrightarrow>
        set_cpi h n w =
          (spi_ret w (k + 2),
           w\<lparr>spi_count := k + 4,
             trace := trace w @ [clk_on h, clk_wait h, wr h 0x7F 0xFF,
                                 wr h (PMW3610_REG_RES_STEP h) v, clk_off h]\<rparr>))
   \<and> (spi_ret w (k + 1) = 0 \<and> spi_ret w (k + 2) = 0 \<and> spi_ret w (k + 3) \<noteq> 0 \<longrightarrow>
        set_cpi h n w =
          (spi_ret w (k + 3),
           w\<lparr>spi_count := k + 5,
             trace := trace w @ [clk_on h, clk_wait h, wr h 0x7F 0xFF,
                                 wr h (PMW3610_REG_RES_STEP h) v, wr h 0x7F 0x00,
                                 clk_off h]\<rparr>))"
  using assms by (simp add: set_cpi_eq Let_def)

theorem set_cpi_payload_error_still_disables_clock_witness:
  "\<not> ((800::u32) > PMW3610_MAX_CPI sample_h \<or> 800 < PMW3610_MIN_CPI sample_h)
   \<and> set_cpi sample_h 800 (fresh_world (\<lambda>k. if k = 1 then - 5 else 0) (\<lambda>k i. 0)) =
       (- 5, (fresh_world (\<lambda>k. if k = 1 then - 5 else 0) (\<lambda>k i. 0))
               \<lparr>spi_count := 3,
                trace := [clk_on sample_h, clk_wait sample_h, wr sample_h 0x7F 0xFF,
                          clk_off sample_h]\<rparr>)
   \<and> set_cpi sample_h 800 (fresh_world (\<lambda>k. if k = 2 then - 5 else 0) (\<lambda>k i. 0)) =
       (- 5, (fresh_world (\<lambda>k. if k = 2 then - 5 else 0) (\<lambda>k i. 0))
               \<lparr>spi_count := 4,
                trace := [clk_on sample_h, clk_wait sample_h, wr sample_h 0x7F 0xFF,
                          wr sample_h 0x05 4, clk_off sample_h]\<rparr>)
   \<and> set_cpi sample_h 800 (fresh_world (\<lambda>k. if k = 3 then - 5 else 0) (\<lambda>k i. 0)) =
       (- 5, (fresh_world (\<lambda>k. if k = 3 then - 5 else 0) (\<lambda>k i. 0))
               \<lparr>spi_count := 5,
                trace := [clk_on sample_h, clk_wait sample_h, wr sample_h 0x7F 0xFF,
                          wr sample_h 0x05 4, wr sample_h 0x7F 0x00, clk_off sample_h]\<rparr>)"
proof -
  have r: "\<not> ((800::u32) > PMW3610_MAX_CPI sample_h \<or> 800 < PMW3610_MIN_CPI sample_h)"
    by (simp add: sample_h_def)
  have v: "(4::u8) = ucast ((800::u32) div 200)"
    by simp
  have res: "PMW3610_REG_RES_STEP sample_h = 0x05"
    by (simp add: sample_h_def)
  show ?thesis
    using r
      set_cpi_payload_error_still_disables_clock
        [OF r _ v, of 0 "fresh_world (\<lambda>k. if k = 1 then - 5 else 0) (\<lambda>k i. 0)"]
      set_cpi_payload_error_still_disables_clock
        [OF r _ v, of 0 "fresh_world (\<lambda>k. if k = 2 then - 5 else 0) (\<lambda>k i. 0)"]
      set_cpi_payload_error_still_disables_clock
        [OF r _ v, of 0 "fresh_world (\<lambda>k. if k = 3 then - 5 else 0) (\<lambda>k i. 0)"]
    by (simp add: fresh_world_def res)
qed

text \<open>
  C4. \<open>set_cpi\<close> with an input outside \<open>[PMW3610_MIN_CPI, PMW3610_MAX_CPI]\<close> returns
  \<open>-EINVAL\<close> and leaves the world as it was: no bus transaction, no trace entry. With an
  input \<open>n\<close> in range, once the latch write went through, the fourth entry that
  \<open>set_cpi\<close> adds to the trace is the write of the register value to the resolution
  register, and that value is \<open>n div 200\<close>. The value is a \<open>uint8_t\<close>, so the header's
  \<open>PMW3610_MAX_CPI\<close> has to keep \<open>n div 200\<close> below 256.
\<close>

theorem set_cpi_range_check_and_register_value:
  "(n > PMW3610_MAX_CPI h \<or> n < PMW3610_MIN_CPI h \<longrightarrow> set_cpi h n w = (- EINVAL, w))
   \<and> (\<not> (n > PMW3610_MAX_CPI h \<or> n < PMW3610_MIN_CPI h)
        \<and> spi_ret w (spi_count w + 1) = 0 \<and> unat (PMW3610_MAX_CPI h) < 51200 \<longrightarrow>
        (\<exists>v. trace (snd (set_cpi h n w)) ! (length (trace w) + 3)
                = wr h (PMW3610_REG_RES_STEP h) v
             \<and> unat v = unat n div 200))"
proof (intro conjI impI)
  assume "n > PMW3610_MAX_CPI h \<or> n < PMW3610_MIN_CPI h"
  then show "set_cpi h n w = (- EINVAL, w)"
    by (rule set_cpi_out_of_range)
next
  assume a: "\<not> (n > PMW3610_MAX_CPI h \<or> n < PMW3610_MIN_CPI h)
        \<and> spi_ret w (spi_count w + 1) = 0 \<and> unat (PMW3610_MAX_CPI h) < 51200"
  then have "n \<le> PMW3610_MAX_CPI h" by (simp add: not_less)
  then have "unat n \<le> unat (PMW3610_MAX_CPI h)" by (simp add: word_le_nat_alt)
  with a have "unat n < 51200" by simp
  then have small: "unat n div 200 < 256" by simp
  have "unat (n div 200) = unat n div 200"
    by (simp add: unat_div)
  with small have "unat (ucast (n div 200) :: u8) = unat n div 200"
    by (simp add: unsigned_ucast_eq take_bit_eq_mod)
  moreover from a have "trace (snd (set_cpi h n w)) ! (length (trace w) + 3)
      = wr h (PMW3610_REG_RES_STEP h) (ucast (n div 200))"
    by (simp add: set_cpi_eq Let_def nth_append)
  ultimately show "\<exists>v. trace (snd (set_cpi h n w)) ! (length (trace w) + 3)
                = wr h (PMW3610_REG_RES_STEP h) v \<and> unat v = unat n div 200"
    by blast
qed

theorem set_cpi_range_check_and_register_value_witness:
  "set_cpi sample_h 3400 (fresh_world (\<lambda>k. 0) (\<lambda>k i. 0)) = (- EINVAL, fresh_world (\<lambda>k. 0) (\<lambda>k i. 0))
   \<and> set_cpi sample_h 0 (fresh_world (\<lambda>k. 0) (\<lambda>k i. 0)) = (- EINVAL, fresh_world (\<lambda>k. 0) (\<lambda>k i. 0))
   \<and> (\<exists>v. trace (snd (set_cpi sample_h 3200 (fresh_world (\<lambda>k. 0) (\<lambda>k i. 0)))) ! 3
            = wr sample_h 0x05 v \<and> unat v = 16)"
  using set_cpi_range_check_and_register_value
      [where n = 3400 and h = sample_h and w = "fresh_world (\<lambda>k. 0) (\<lambda>k i. 0)"]
    set_cpi_range_check_and_register_value
      [where n = 0 and h = sample_h and w = "fresh_world (\<lambda>k. 0) (\<lambda>k i. 0)"]
    set_cpi_range_check_and_register_value
      [where n = 3200 and h = sample_h and w = "fresh_world (\<lambda>k. 0) (\<lambda>k i. 0)"]
  by (simp add: sample_h_def fresh_world_def)

lemma decode_xy_eq:
  "decode_xy h buf =
     (let raw_x = uint (buf ! PMW3610_X_L_POS h) + 256 * (uint (buf ! PMW3610_XY_H_POS h) div 16);
          raw_y = uint (buf ! PMW3610_Y_L_POS h) + 256 * (uint (buf ! PMW3610_XY_H_POS h) mod 16)
      in (if raw_x < 2048 then raw_x else raw_x - 4096,
          if raw_y < 2048 then raw_y else raw_y - 4096))"
proof -
  let ?xl = "uint (buf ! PMW3610_X_L_POS h)"
  let ?yl = "uint (buf ! PMW3610_Y_L_POS h)"
  let ?hb = "uint (buf ! PMW3610_XY_H_POS h)"
  have b: "0 \<le> ?xl" "?xl < 256" "0 \<le> ?yl" "?yl < 256" "0 \<le> ?hb" "?hb < 256"
    using uint_bounded [of "buf ! PMW3610_X_L_POS h"] uint_bounded [of "buf ! PMW3610_Y_L_POS h"]
      uint_bounded [of "buf ! PMW3610_XY_H_POS h"] by simp_all
  have hx: "0 \<le> ?hb div 16" "?hb div 16 < 16"
    using b by (simp_all add: pos_imp_zdiv_nonneg_iff)
  have hy: "0 \<le> ?hb mod 16" "?hb mod 16 < 16"
    by simp_all
  have rx: "0 \<le> ?xl + 256 * (?hb div 16)" "?xl + 256 * (?hb div 16) < 4096"
    using b hx by linarith+
  have ry: "0 \<le> ?yl + 256 * (?hb mod 16)" "?yl + 256 * (?hb mod 16) < 4096"
    using b hy by linarith+
  show ?thesis
    unfolding decode_xy_def hi_nibble lo_nibble Let_def
    using TOINT16_12 [OF rx] TOINT16_12 [OF ry] by simp
qed

lemma decode_xy_range:
  "- 2048 \<le> fst (decode_xy h buf) \<and> fst (decode_xy h buf) \<le> 2047
   \<and> - 2048 \<le> snd (decode_xy h buf) \<and> snd (decode_xy h buf) \<le> 2047"
proof -
  let ?xl = "uint (buf ! PMW3610_X_L_POS h)"
  let ?yl = "uint (buf ! PMW3610_Y_L_POS h)"
  let ?hb = "uint (buf ! PMW3610_XY_H_POS h)"
  have b: "0 \<le> ?xl" "?xl < 256" "0 \<le> ?yl" "?yl < 256" "0 \<le> ?hb" "?hb < 256"
    using uint_bounded [of "buf ! PMW3610_X_L_POS h"] uint_bounded [of "buf ! PMW3610_Y_L_POS h"]
      uint_bounded [of "buf ! PMW3610_XY_H_POS h"] by simp_all
  have hx: "0 \<le> ?hb div 16" "?hb div 16 < 16"
    using b by (simp_all add: pos_imp_zdiv_nonneg_iff)
  have hy: "0 \<le> ?hb mod 16" "?hb mod 16 < 16"
    by simp_all
  have rx: "0 \<le> ?xl + 256 * (?hb div 16)" "?xl + 256 * (?hb div 16) < 4096"
    using b hx by linarith+
  have ry: "0 \<le> ?yl + 256 * (?hb mod 16)" "?yl + 256 * (?hb mod 16) < 4096"
    using b hy by linarith+
  show ?thesis
    unfolding decode_xy_eq Let_def using rx ry
    by (simp split: if_splits) (use b hy in linarith)
qed

text \<open>
  C3. Each axis is the low byte plus 256 times its nibble of the shared high byte (the
  high nibble for \<open>x\<close>, the low nibble for \<open>y\<close>), a 12-bit value \<open>raw\<close>, read as two's
  complement: \<open>raw\<close> below 2048 stays, otherwise \<open>raw - 4096\<close>. So \<open>0xFFF\<close> decodes to
  \<open>-1\<close>, \<open>0x001\<close> to \<open>1\<close>, \<open>0x7FF\<close> to \<open>2047\<close> and \<open>0x800\<close> to \<open>-2048\<close>, on the macro
  and on sample burst buffers.
\<close>

theorem decode_xy_sign_extends_12_bits:
  "decode_xy h buf =
     (let raw_x = uint (buf ! PMW3610_X_L_POS h) + 256 * (uint (buf ! PMW3610_XY_H_POS h) div 16);
          raw_y = uint (buf ! PMW3610_Y_L_POS h) + 256 * (uint (buf ! PMW3610_XY_H_POS h) mod 16)
      in (if raw_x < 2048 then raw_x else raw_x - 4096,
          if raw_y < 2048 then raw_y else raw_y - 4096))
   \<and> TOINT16 0xFFF 12 = - 1 \<and> TOINT16 0x001 12 = 1
   \<and> TOINT16 0x7FF 12 = 2047 \<and> TOINT16 0x800 12 = - 2048
   \<and> decode_xy sample_h [0, 0xFF, 0x01, 0xF0, 0, 0, 0] = (- 1, 1)
   \<and> decode_xy sample_h [0, 0xFF, 0x00, 0x78, 0, 0, 0] = (2047, - 2048)
   \<and> decode_xy sample_h [0, 0x00, 0xFF, 0x87, 0, 0, 0] = (- 2048, 2047)"
proof -
  have "TOINT16 0xFFF 12 = - 1" "TOINT16 0x001 12 = 1"
    "TOINT16 0x7FF 12 = 2047" "TOINT16 0x800 12 = - 2048"
    by (simp_all add: TOINT16_12)
  moreover have "decode_xy sample_h [0, 0xFF, 0x01, 0xF0, 0, 0, 0] = (- 1, 1)"
    "decode_xy sample_h [0, 0xFF, 0x00, 0x78, 0, 0, 0] = (2047, - 2048)"
    "decode_xy sample_h [0, 0x00, 0xFF, 0x87, 0, 0, 0] = (- 2048, 2047)"
    by (simp_all add: decode_xy_eq sample_h_def)
  ultimately show ?thesis
    using decode_xy_eq [of h buf] by simp
qed

lemma to_int16_id: "- 32768 \<le> v \<Longrightarrow> v \<le> 32767 \<Longrightarrow> to_int16 v = v"
  by (simp add: to_int16_def signed_take_bit_int_eq_self_iff)

text \<open>
  C8. For every decoded sample the transform is: exchange \<open>x\<close> and \<open>y\<close> if the swap is
  configured, then negate the (already swapped) \<open>x\<close> if \<open>INVERT_X\<close> is configured and
  the (already swapped) \<open>y\<close> if \<open>INVERT_Y\<close> is. With swap and \<open>INVERT_X\<close> configured,
  \<open>(3, 5)\<close> becomes \<open>(-5, 3)\<close>.
\<close>

theorem axis_transform_swap_then_invert:
  "axis_transform c (decode_xy h buf) =
     (let x = fst (decode_xy h buf); y = snd (decode_xy h buf);
          sx = (if CONFIG_PMW3610_SWAP_XY c then y else x);
          sy = (if CONFIG_PMW3610_SWAP_XY c then x else y)
      in (if CONFIG_PMW3610_INVERT_X c then - sx else sx,
          if CONFIG_PMW3610_INVERT_Y c then - sy else sy))
   \<and> axis_transform sample_kconfig (3, 5) = (- 5, 3)"
proof -
  have n: "to_int16 (- fst (decode_xy h buf)) = - fst (decode_xy h buf)"
    "to_int16 (- snd (decode_xy h buf)) = - snd (decode_xy h buf)"
    using decode_xy_range [of h buf] by (simp_all add: to_int16_id)
  have "axis_transform sample_kconfig (3, 5) = (- 5, 3)"
    by (simp add: axis_transform_def sample_kconfig_def to_int16_id)
  then show ?thesis
    by (simp add: axis_transform_def Let_def n)
qed

lemma shutter_of_eq:
  "shutter_of h buf =
     256 * (uint (buf ! PMW3610_SHUTTER_H_POS h) mod 2) + uint (buf ! PMW3610_SHUTTER_L_POS h)"
proof -
  let ?hb = "uint (buf ! PMW3610_SHUTTER_H_POS h)"
  let ?lb = "uint (buf ! PMW3610_SHUTTER_L_POS h)"
  have b: "0 \<le> ?lb" "?lb < 256" "0 \<le> ?hb mod 2" "?hb mod 2 < 2"
    using uint_bounded [of "buf ! PMW3610_SHUTTER_L_POS h"] by simp_all
  have 1: "to_int16 (?hb mod 2) = ?hb mod 2"
    using b by (intro to_int16_id) linarith+
  have 2: "to_int16 (?hb mod 2 * 256 + ?lb) = ?hb mod 2 * 256 + ?lb"
    using b by (intro to_int16_id) linarith+
  show ?thesis
    by (simp add: shutter_of_def int_and_0x01 1 push_bit_eq_mult 2)
qed

text \<open>
  C10. At a shutter value of exactly 45 the smart algorithm changes neither the flag nor
  the world (no register write). For any shutter value it either does nothing, or clears
  a set flag with one write of \<open>0x00\<close> to register \<open>0x32\<close> (shutter below 45), or sets a
  clear flag with one write of \<open>0x80\<close> (shutter above 45): at most one switch per sample.
  The shutter value is the 9-bit number made of bit 0 of the high byte and the low byte.
\<close>

theorem smart_algorithm_dead_point_and_single_switch:
  "smart_algorithm h 45 (d, w) = (d, w)
   \<and> (smart_algorithm h sh (d, w) = (d, w)
      \<or> (sw_smart_flag d \<and> sh < 45
          \<and> smart_algorithm h sh (d, w)
              = (d\<lparr>sw_smart_flag := False\<rparr>, snd (pmw3610_write h 0x32 0x00 w)))
      \<or> (\<not> sw_smart_flag d \<and> sh > 45
          \<and> smart_algorithm h sh (d, w)
              = (d\<lparr>sw_smart_flag := True\<rparr>, snd (pmw3610_write h 0x32 0x80 w))))
   \<and> shutter_of h buf
       = 256 * (uint (buf ! PMW3610_SHUTTER_H_POS h) mod 2) + uint (buf ! PMW3610_SHUTTER_L_POS h)"
  by (simp add: smart_algorithm_def shutter_of_eq)

theorem smart_algorithm_dead_point_and_single_switch_witness:
  "smart_algorithm sample_h 45
       (zeroed_device\<lparr>sw_smart_flag := True\<rparr>, fresh_world (\<lambda>k. 0) (\<lambda>k i. 0))
     = (zeroed_device\<lparr>sw_smart_flag := True\<rparr>, fresh_world (\<lambda>k. 0) (\<lambda>k i. 0))
   \<and> shutter_of sample_h [0, 0, 0, 0, 0, 0xFE, 45] = 45
   \<and> sw_smart_flag (zeroed_device\<lparr>sw_smart_flag := True\<rparr>) \<and> (44::int) < 45
   \<and> smart_algorithm sample_h 44
         (zeroed_device\<lparr>sw_smart_flag := True\<rparr>, fresh_world (\<lambda>k. 0) (\<lambda>k i. 0))
       = (zeroed_device\<lparr>sw_smart_flag := True, sw_smart_flag := False\<rparr>,
          snd (pmw3610_write sample_h 0x32 0x00 (fresh_world (\<lambda>k. 0) (\<lambda>k i. 0))))"
proof -
  note t = smart_algorithm_dead_point_and_single_switch
      [of sample_h "zeroed_device\<lparr>sw_smart_flag := True\<rparr>" "fresh_world (\<lambda>k. 0) (\<lambda>k i. 0)"
          44 "[0, 0, 0, 0, 0, 0xFE, 45]"]
  have a: "smart_algorithm sample_h 45
       (zeroed_device\<lparr>sw_smart_flag := True\<rparr>, fresh_world (\<lambda>k. 0) (\<lambda>k i. 0))
     = (zeroed_device\<lparr>sw_smart_flag := True\<rparr>, fresh_world (\<lambda>k. 0) (\<lambda>k i. 0))"
    using t by (rule conjunct1)
  have "shutter_of sample_h [0, 0, 0, 0, 0, 0xFE, 45]
       = 256 * (uint ([0, 0, 0, 0, 0, 0xFE, 45 :: u8] ! PMW3610_SHUTTER_H_POS sample_h) mod 2)
         + uint ([0, 0, 0, 0, 0, 0xFE, 45 :: u8] ! PMW3610_SHUTTER_L_POS sample_h)"
    using t by (rule conjunct2 [THEN conjunct2])
  then have b: "shutter_of sample_h [0, 0, 0, 0, 0, 0xFE, 45] = 45"
    by (simp add: sample_h_def)
  have c: "smart_algorithm sample_h 44
         (zeroed_device\<lparr>sw_smart_flag := True\<rparr>, fresh_world (\<lambda>k. 0) (\<lambda>k i. 0))
       = (zeroed_device\<lparr>sw_smart_flag := True, sw_smart_flag := False\<rparr>,
          snd (pmw3610_write sample_h 0x32 0x00 (fresh_world (\<lambda>k. 0) (\<lambda>k i. 0))))"
    by (simp add: smart_algorithm_def)
  from a b c show ?thesis by simp
qed

section \<open>The report pipeline, step by step\<close>

lemma CLAMP_int16: "to_int16 (CLAMP v INT16_MIN INT16_MAX) = max (- 32768) (min 32767 v)"
proof -
  have "CLAMP v INT16_MIN INT16_MAX = max (- 32768) (min 32767 v)"
    by (simp add: CLAMP_def INT16_MIN_def INT16_MAX_def min_def max_def)
  moreover have "to_int16 (max (- 32768) (min 32767 v)) = max (- 32768) (min 32767 v)"
    by (rule to_int16_id) simp_all
  ultimately show ?thesis by simp
qed

lemma fetch_and_report_eq:
  "fetch_and_report c config now d w =
     (let rx = max (- 32768) (min 32767 (dx d)); ry = max (- 32768) (min 32767 (dy d)) in
      if rx = 0 \<and> ry = 0 then (d, w)
      else ((if CONFIG_PMW3610_REPORT_INTERVAL_MIN c > 0 then d\<lparr>last_rpt_time := now\<rparr> else d)
              \<lparr>dx := 0, dy := 0\<rparr>,
            w\<lparr>trace := trace w
               @ (if rx \<noteq> 0
                  then [InputReport (evt_type config) (x_input_code config) rx (ry = 0)] else [])
               @ (if ry \<noteq> 0
                  then [InputReport (evt_type config) (y_input_code config) ry True] else [])\<rparr>))"
proof -
  define rx where "rx = max (- 32768) (min 32767 (dx d))"
  define ry where "ry = max (- 32768) (min 32767 (dy d))"
  show ?thesis
    unfolding fetch_and_report_def CLAMP_int16 Let_def rx_def [symmetric] ry_def [symmetric]
    by (cases "rx = 0"; cases "ry = 0"; simp add: input_report_def emit_def)
qed

lemma pmw3610_report_data_eq:
  assumes "ready d" and "spi_ret w (spi_count w) = 0" and "buf_index_ok h c"
  shows "pmw3610_report_data h c config now d w =
     (let buf = map (spi_rx w (spi_count w)) [0..<PMW3610_BURST_SIZE h];
          w1 = w\<lparr>spi_count := Suc (spi_count w),
                 trace := trace w @ [SpiTransceive (PMW3610_REG_MOTION_BURST h)
                                       (PMW3610_BURST_SIZE h)]\<rparr>;
          s = (if CONFIG_PMW3610_SMART_ALGORITHM c
               then smart_algorithm h (shutter_of h buf) (d, w1) else (d, w1));
          d3 = accumulate (axis_transform c (decode_xy h buf)) (purge_stale c now (fst s))
      in if CONFIG_PMW3610_REPORT_INTERVAL_MIN c > 0
            \<and> now - last_rpt_time d3 < CONFIG_PMW3610_REPORT_INTERVAL_MIN c
         then Some (0, d3, snd s)
         else Some (0, fetch_and_report c config now d3 (snd s)))"
proof -
  define buf where "buf = map (spi_rx w (spi_count w)) [0..<PMW3610_BURST_SIZE h]"
  define w1 where "w1 = w\<lparr>spi_count := Suc (spi_count w),
      trace := trace w @ [SpiTransceive (PMW3610_REG_MOTION_BURST h) (PMW3610_BURST_SIZE h)]\<rparr>"
  have rd: "pmw3610_read (PMW3610_REG_MOTION_BURST h) (PMW3610_BURST_SIZE h) w = ((0, buf), w1)"
    using assms(2) by (simp add: pmw3610_read_eq buf_def w1_def)
  show ?thesis
    unfolding pmw3610_report_data_def rd Let_def buf_def [symmetric] w1_def [symmetric]
    using assms(1,3) by (auto simp add: prod.case_eq_if)
qed

lemma pmw3610_report_data_read_error:
  assumes "ready d" and "spi_ret w (spi_count w) \<noteq> 0"
  shows "pmw3610_report_data h c config now d w =
     Some (spi_ret w (spi_count w), d,
           w\<lparr>spi_count := Suc (spi_count w),
             trace := trace w @ [SpiTransceive (PMW3610_REG_MOTION_BURST h)
                                   (PMW3610_BURST_SIZE h)]\<rparr>)"
  using assms by (simp add: pmw3610_report_data_def pmw3610_read_eq)

text \<open>
  C7. When the burst read returns an error \<open>e\<close>, \<open>pmw3610_report_data\<close> returns \<open>e\<close> with
  the device state as it was (accumulators, timestamps, smart flag) and the read as the
  only new trace entry: no event, no interrupt configuration. \<open>pmw3610_work_callback\<close>
  then adds the interrupt enable.
\<close>

theorem burst_read_error_skips_cycle:
  assumes "ready d" and "spi_ret w (spi_count w) = e" and "e \<noteq> 0"
  shows "pmw3610_report_data h c config now d w =
           Some (e, d, w\<lparr>spi_count := Suc (spi_count w),
                         trace := trace w @ [SpiTransceive (PMW3610_REG_MOTION_BURST h)
                                               (PMW3610_BURST_SIZE h)]\<rparr>)
       \<and> pmw3610_work_callback h c config now d w =
           Some (d, w\<lparr>spi_count := Suc (spi_count w),
                      trace := trace w @ [SpiTransceive (PMW3610_REG_MOTION_BURST h)
                                            (PMW3610_BURST_SIZE h),
                                          GpioInterruptConfigure True]\<rparr>)"
  using assms
  by (simp add: pmw3610_work_callback_def pmw3610_report_data_read_error set_interrupt_def
      emit_def)

lemma smart_algorithm_zeroed:
  "smart_algorithm h sh (d\<lparr>dx := 0, dy := 0\<rparr>, w) =
     (fst (smart_algorithm h sh (d, w))\<lparr>dx := 0, dy := 0\<rparr>, snd (smart_algorithm h sh (d, w)))"
  by (simp add: smart_algorithm_def)

lemma smart_algorithm_last_smp_time:
  "last_smp_time (fst (smart_algorithm h sh (d, w))) = last_smp_time d"
  by (simp add: smart_algorithm_def)

lemma purge_stale_zeroed:
  assumes "CONFIG_PMW3610_REPORT_INTERVAL_MIN c > 0"
    and "now - last_smp_time d \<ge> CONFIG_PMW3610_REPORT_INTERVAL_MIN c"
  shows "purge_stale c now d = d\<lparr>dx := 0, dy := 0, last_smp_time := now\<rparr>"
  using assms by (simp add: purge_stale_def)

lemma smart_algorithm_ready:
  "ready (fst (smart_algorithm h sh (d, w))) = ready d"
  by (simp add: smart_algorithm_def)

lemma fetch_and_report_keeps:
  "ready (fst (fetch_and_report c config now d w)) = ready d"
  "last_smp_time (fst (fetch_and_report c config now d w)) = last_smp_time d"
  "sw_smart_flag (fst (fetch_and_report c config now d w)) = sw_smart_flag d"
  "spi_count (snd (fetch_and_report c config now d w)) = spi_count w"
proof -
  define rx where "rx = max (- 32768) (min 32767 (dx d))"
  define ry where "ry = max (- 32768) (min 32767 (dy d))"
  have eq: "fetch_and_report c config now d w =
      (if rx = 0 \<and> ry = 0 then (d, w)
       else ((if CONFIG_PMW3610_REPORT_INTERVAL_MIN c > 0 then d\<lparr>last_rpt_time := now\<rparr> else d)
              \<lparr>dx := 0, dy := 0\<rparr>,
            w\<lparr>trace := trace w
               @ (if rx \<noteq> 0
                  then [InputReport (evt_type config) (x_input_code config) rx (ry = 0)] else [])
               @ (if ry \<noteq> 0
                  then [InputReport (evt_type config) (y_input_code config) ry True] else [])\<rparr>))"
    unfolding fetch_and_report_eq Let_def rx_def ry_def ..
  show "ready (fst (fetch_and_report c config now d w)) = ready d"
    "last_smp_time (fst (fetch_and_report c config now d w)) = last_smp_time d"
    "sw_smart_flag (fst (fetch_and_report c config now d w)) = sw_smart_flag d"
    "spi_count (snd (fetch_and_report c config now d w)) = spi_count w"
    unfolding eq by simp_all
qed

lemma report_data_last_smp_time:
  assumes res: "pmw3610_report_data h c config now d w = Some (0, d', w')"
    and I: "CONFIG_PMW3610_REPORT_INTERVAL_MIN c > 0"
  shows "ready d' \<and> last_smp_time d' = now"
proof -
  have r: "ready d"
  proof (rule ccontr)
    assume "\<not> ready d"
    with res show False by (simp add: pmw3610_report_data_def EBUSY_def)
  qed
  have e: "spi_ret w (spi_count w) = 0"
  proof (rule ccontr)
    assume "spi_ret w (spi_count w) \<noteq> 0"
    with res r show False by (simp add: pmw3610_report_data_read_error)
  qed
  have b: "buf_index_ok h c"
  proof (rule ccontr)
    assume "\<not> buf_index_ok h c"
    with res r e show False by (simp add: pmw3610_report_data_def pmw3610_read_eq)
  qed
  define buf where "buf = map (spi_rx w (spi_count w)) [0..<PMW3610_BURST_SIZE h]"
  define w1 where "w1 = w\<lparr>spi_count := Suc (spi_count w),
      trace := trace w @ [SpiTransceive (PMW3610_REG_MOTION_BURST h) (PMW3610_BURST_SIZE h)]\<rparr>"
  define s where "s = (if CONFIG_PMW3610_SMART_ALGORITHM c
      then smart_algorithm h (shutter_of h buf) (d, w1) else (d, w1))"
  define d3 where "d3 = accumulate (axis_transform c (decode_xy h buf)) (purge_stale c now (fst s))"
  have "ready (fst s)"
    using r by (simp add: s_def smart_algorithm_ready)
  with I have d3: "ready d3 \<and> last_smp_time d3 = now"
    by (simp add: d3_def accumulate_def purge_stale_def)
  have "pmw3610_report_data h c config now d w = Some (0, d3, snd s)
      \<or> pmw3610_report_data h c config now d w
          = Some (0, fetch_and_report c config now d3 (snd s))"
    unfolding pmw3610_report_data_eq [OF r e b] Let_def buf_def [symmetric] w1_def [symmetric]
      s_def [symmetric] d3_def [symmetric]
    by simp
  then have "d' = d3 \<or> d' = fst (fetch_and_report c config now d3 (snd s))"
    using res by (metis fst_conv snd_conv option.inject)
  then show ?thesis
    using d3 by (auto simp add: fetch_and_report_keeps)
qed

lemma report_data_ignores_stale_deltas:
  assumes I: "CONFIG_PMW3610_REPORT_INTERVAL_MIN c > 0"
    and gap: "now - last_smp_time d \<ge> CONFIG_PMW3610_REPORT_INTERVAL_MIN c"
    and r: "ready d" and e: "spi_ret w (spi_count w) = 0"
  shows "pmw3610_report_data h c config now d w
           = pmw3610_report_data h c config now (d\<lparr>dx := 0, dy := 0\<rparr>) w"
proof (cases "buf_index_ok h c")
  case False
  with r e show ?thesis
    by (simp add: pmw3610_report_data_def pmw3610_read_eq)
next
  case True
  define buf where "buf = map (spi_rx w (spi_count w)) [0..<PMW3610_BURST_SIZE h]"
  define w1 where "w1 = w\<lparr>spi_count := Suc (spi_count w),
      trace := trace w @ [SpiTransceive (PMW3610_REG_MOTION_BURST h) (PMW3610_BURST_SIZE h)]\<rparr>"
  define s where "s = (if CONFIG_PMW3610_SMART_ALGORITHM c
      then smart_algorithm h (shutter_of h buf) (d, w1) else (d, w1))"
  define s0 where "s0 = (if CONFIG_PMW3610_SMART_ALGORITHM c
      then smart_algorithm h (shutter_of h buf) (d\<lparr>dx := 0, dy := 0\<rparr>, w1)
      else (d\<lparr>dx := 0, dy := 0\<rparr>, w1))"
  have s0: "s0 = ((fst s)\<lparr>dx := 0, dy := 0\<rparr>, snd s)"
    by (simp add: s0_def s_def smart_algorithm_zeroed)
  have "last_smp_time (fst s) = last_smp_time d"
    by (simp add: s_def smart_algorithm_last_smp_time)
  with I gap have "purge_stale c now (fst s0) = purge_stale c now (fst s)"
    by (simp add: s0 purge_stale_zeroed)
  moreover have "snd s0 = snd s"
    by (simp add: s0)
  moreover have r0: "ready (d\<lparr>dx := 0, dy := 0\<rparr>)"
    using r by simp
  ultimately show ?thesis
    unfolding pmw3610_report_data_eq [OF r e True] pmw3610_report_data_eq [OF r0 e True]
      Let_def buf_def [symmetric] w1_def [symmetric] s_def [symmetric] s0_def [symmetric]
    by (simp only:)
qed

lemma sample_first_sample:
  "pmw3610_report_data sample_h sample_kconfig sample_config 1000
     (zeroed_device\<lparr>ready := True, last_rpt_time := 995\<rparr>)
     (fresh_world (\<lambda>k. 0) (\<lambda>k i. if i = 1 then 3 else 0))
   = Some (0, zeroed_device\<lparr>ready := True, last_rpt_time := 995, dy := 3, last_smp_time := 1000\<rparr>,
           (fresh_world (\<lambda>k. 0) (\<lambda>k i. if i = 1 then 3 else 0))
             \<lparr>spi_count := 1, trace := [SpiTransceive 0x12 7]\<rparr>)"
proof -
  have r: "ready (zeroed_device\<lparr>ready := True, last_rpt_time := 995\<rparr>)"
    by simp
  have e: "spi_ret (fresh_world (\<lambda>k. 0) (\<lambda>k i. if i = 1 then 3 else 0))
             (spi_count (fresh_world (\<lambda>k. 0) (\<lambda>k i. if i = 1 then 3 else 0))) = 0"
    by (simp add: fresh_world_def)
  have b: "buf_index_ok sample_h sample_kconfig"
    by (simp add: buf_index_ok_def sample_h_def)
  show ?thesis
    unfolding pmw3610_report_data_eq [OF r e b]
    by (simp add: Let_def decode_xy_eq shutter_of_eq axis_transform_def smart_algorithm_def
        purge_stale_def accumulate_def sample_h_def sample_kconfig_def zeroed_device_def
        fresh_world_def to_int16_id)
qed

theorem burst_read_error_skips_cycle_witness:
  "ready (zeroed_device\<lparr>ready := True, dx := 7\<rparr>)
   \<and> spi_ret (fresh_world (\<lambda>k. - 5) (\<lambda>k i. 0)) (spi_count (fresh_world (\<lambda>k. - 5) (\<lambda>k i. 0))) = - 5
   \<and> (- 5 :: int) \<noteq> 0
   \<and> pmw3610_report_data sample_h sample_kconfig sample_config 1000
        (zeroed_device\<lparr>ready := True, dx := 7\<rparr>) (fresh_world (\<lambda>k. - 5) (\<lambda>k i. 0))
      = Some (- 5, zeroed_device\<lparr>ready := True, dx := 7\<rparr>,
              (fresh_world (\<lambda>k. - 5) (\<lambda>k i. 0))
                \<lparr>spi_count := 1, trace := [SpiTransceive 0x12 7]\<rparr>)
   \<and> pmw3610_work_callback sample_h sample_kconfig sample_config 1000
        (zeroed_device\<lparr>ready := True, dx := 7\<rparr>) (fresh_world (\<lambda>k. - 5) (\<lambda>k i. 0))
      = Some (zeroed_device\<lparr>ready := True, dx := 7\<rparr>,
              (fresh_world (\<lambda>k. - 5) (\<lambda>k i. 0))
                \<lparr>spi_count := 1,
                 trace := [SpiTransceive 0x12 7, GpioInterruptConfigure True]\<rparr>)"
proof -
  have r: "ready (zeroed_device\<lparr>ready := True, dx := 7\<rparr>)"
    by simp
  have e: "spi_ret (fresh_world (\<lambda>k. - 5) (\<lambda>k i. 0))
             (spi_count (fresh_world (\<lambda>k. - 5) (\<lambda>k i. 0))) = - 5"
    by (simp add: fresh_world_def)
  have n: "(- 5 :: int) \<noteq> 0"
    by simp
  show ?thesis
    using r e burst_read_error_skips_cycle [OF r e n, of sample_h sample_kconfig sample_config 1000]
    by (simp add: fresh_world_def sample_h_def)
qed

section \<open>The init steps leave the work item alone\<close>

lemma pmw3610_write_init_work: "init_work (snd (pmw3610_write h reg val w)) = init_work w"
  by (simp add: pmw3610_write_eq)

lemma pmw3610_read_reg_init_work: "init_work (snd (pmw3610_read_reg a w)) = init_work w"
  by (simp add: pmw3610_read_reg_eq)

lemma set_cpi_init_work: "init_work (snd (set_cpi h n w)) = init_work w"
proof (cases "n > PMW3610_MAX_CPI h \<or> n < PMW3610_MIN_CPI h")
  case True
  then show ?thesis by (simp add: set_cpi_out_of_range)
next
  case False
  then show ?thesis by (simp add: set_cpi_eq Let_def)
qed

lemma set_sample_time_init_work: "init_work (snd (set_sample_time h reg t w)) = init_work w"
  by (simp add: set_sample_time_def Let_def pmw3610_write_init_work)

lemma set_downshift_time_init_work:
  assumes "set_downshift_time h c reg t w = Some (e, w')"
  shows "init_work w' = init_work w"
proof (cases "downshift_bounds h c reg")
  case None
  with assms show ?thesis by (simp add: set_downshift_time_def)
next
  case (Some b)
  obtain maxtime mintime where b: "b = (maxtime, mintime)" by (cases b)
  from assms Some b have
    "w' = w \<or> (e, w') = pmw3610_write h reg (ucast (t div mintime)) w"
    by (auto simp add: set_downshift_time_def split: if_splits)
  then show ?thesis
  proof
    assume "w' = w" then show ?thesis by simp
  next
    assume "(e, w') = pmw3610_write h reg (ucast (t div mintime)) w"
    then have "w' = snd (pmw3610_write h reg (ucast (t div mintime)) w)"
      by (metis snd_conv)
    then show ?thesis by (simp add: pmw3610_write_init_work)
  qed
qed

lemma clear_motion_regs_init_work:
  "init_work (snd (clear_motion_regs regs e w)) = init_work w"
proof (induction regs arbitrary: e w)
  case Nil
  show ?case by simp
next
  case (Cons reg regs)
  show ?case
  proof (cases "e = 0")
    case False
    then show ?thesis by simp
  next
    case True
    then show ?thesis
      using Cons.IH [of "spi_ret w (spi_count w)"
          "w\<lparr>spi_count := Suc (spi_count w), trace := trace w @ [SpiTransceive reg 1]\<rparr>"]
      by (simp add: pmw3610_read_reg_eq)
  qed
qed

lemma if_no_err_init_work:
  assumes res: "Option.bind r (if_no_err f) = Some (e, w')"
    and r: "\<And>e0 w0. r = Some (e0, w0) \<Longrightarrow> init_work w0 = X"
    and f: "\<And>w0 e1 w1. f w0 = Some (e1, w1) \<Longrightarrow> init_work w1 = init_work w0"
  shows "init_work w' = X"
proof (cases r)
  case None
  with res show ?thesis by simp
next
  case (Some p)
  obtain e0 w0 where p: "p = (e0, w0)" by (cases p)
  have x: "init_work w0 = X" using r Some p by simp
  show ?thesis
  proof (cases "e0 = 0")
    case True
    with res Some p have "f w0 = Some (e, w')" by (simp add: if_no_err_def)
    then show ?thesis using f x by simp
  next
    case False
    with res Some p have "w' = w0" by (simp add: if_no_err_def)
    then show ?thesis using x by simp
  qed
qed

lemma pmw3610_async_init_configure_init_work:
  assumes "pmw3610_async_init_configure h c config w = Some (e, w')"
  shows "init_work w' = init_work w"
  using assms unfolding pmw3610_async_init_configure_def
proof (elim if_no_err_init_work)
  fix e0 w0 assume "Some (clear_motion_regs [0x02, 0x03, 0x04, 0x05] 0 w) = Some (e0, w0)"
  then have "w0 = snd (clear_motion_regs [0x02, 0x03, 0x04, 0x05] 0 w)"
    by (metis option.inject snd_conv)
  then show "init_work w0 = init_work w"
    by (simp only: clear_motion_regs_init_work)
next
  fix w0 e1 w1 assume "Some (set_cpi h (cpi config) w0) = Some (e1, w1)"
  then have "w1 = snd (set_cpi h (cpi config) w0)"
    by (metis option.inject snd_conv)
  then show "init_work w1 = init_work w0"
    by (simp only: set_cpi_init_work)
qed (auto dest: set_downshift_time_init_work simp add: set_sample_time_init_work
      dest!: arg_cong [where f = snd])


lemma async_init_fn_init_work:
  assumes "async_init_fn h c config step w = Some (e, w')"
  shows "init_work w' = init_work w"
proof -
  consider "step = 0" | "step = 1" | "step = 2" | "step = 3" | "step \<ge> 4"
    by linarith
  then show ?thesis
  proof cases
    case 1
    with assms have "w' = snd (pmw3610_write_reg h (PMW3610_REG_POWER_UP_RESET h)
        (PMW3610_POWERUP_CMD_RESET h) w)"
      by (auto simp add: async_init_fn_def ASYNC_INIT_STEP_POWER_UP_def
          pmw3610_async_init_power_up_def pmw3610_write_reg_eq split: if_splits)
    then show ?thesis by (simp add: pmw3610_write_reg_eq)
  next
    case 2
    with assms have "w' = snd (pmw3610_write h (PMW3610_REG_OBSERVATION h) 0x00 w)"
      by (simp add: async_init_fn_def ASYNC_INIT_STEP_POWER_UP_def ASYNC_INIT_STEP_CLEAR_OB1_def
          pmw3610_async_init_clear_ob1_def)
    then show ?thesis by (simp add: pmw3610_write_init_work)
  next
    case 3
    with assms have "(e, w') = pmw3610_async_init_check_ob1 h w"
      by (simp add: async_init_fn_def ASYNC_INIT_STEP_POWER_UP_def ASYNC_INIT_STEP_CLEAR_OB1_def
          ASYNC_INIT_STEP_CHECK_OB1_def)
    then show ?thesis
      by (auto simp add: pmw3610_async_init_check_ob1_def pmw3610_read_reg_eq split: if_splits)
  next
    case 4
    with assms have "pmw3610_async_init_configure h c config w = Some (e, w')"
      by (simp add: async_init_fn_def ASYNC_INIT_STEP_POWER_UP_def ASYNC_INIT_STEP_CLEAR_OB1_def
          ASYNC_INIT_STEP_CHECK_OB1_def ASYNC_INIT_STEP_CONFIGURE_def)
    then show ?thesis by (rule pmw3610_async_init_configure_init_work)
  next
    case 5
    with assms show ?thesis
      by (simp add: async_init_fn_def ASYNC_INIT_STEP_POWER_UP_def ASYNC_INIT_STEP_CLEAR_OB1_def
          ASYNC_INIT_STEP_CHECK_OB1_def ASYNC_INIT_STEP_CONFIGURE_def)
  qed
qed

section \<open>One run of the init handler\<close>

lemma pmw3610_async_init_error:
  assumes "async_init_fn h c config (async_init_step d) w = Some (e, w1)" and "e \<noteq> 0"
  shows "pmw3610_async_init h c config d w = Some (d\<lparr>err := e\<rparr>, w1)"
  using assms by (simp add: pmw3610_async_init_def)

lemma pmw3610_async_init_next:
  assumes "async_init_fn h c config (async_init_step d) w = Some (0, w1)"
    and "Suc (async_init_step d) \<noteq> 4"
  shows "pmw3610_async_init h c config d w =
     Some (d\<lparr>err := 0, async_init_step := Suc (async_init_step d)\<rparr>,
           k_work_schedule (async_init_delay c ! Suc (async_init_step d)) w1)"
  using assms by (simp add: pmw3610_async_init_def ASYNC_INIT_STEP_COUNT_def)

lemma pmw3610_async_init_done:
  assumes "async_init_fn h c config (async_init_step d) w = Some (0, w1)"
    and "Suc (async_init_step d) = 4"
  shows "pmw3610_async_init h c config d w =
     Some (d\<lparr>err := 0, async_init_step := 4, ready := True\<rparr>, set_interrupt True w1)"
  using assms by (simp add: pmw3610_async_init_def ASYNC_INIT_STEP_COUNT_def)

lemma init_work_runs_stalled:
  assumes p: "init_work w \<noteq> None"
    and f: "async_init_fn h c config (async_init_step d) (w\<lparr>init_work := None\<rparr>) = Some (e, w1)"
    and e: "e \<noteq> 0"
  shows "init_work_runs (Suc n) h c config d w = Some (d\<lparr>err := e\<rparr>, w1) \<and> init_work w1 = None"
proof -
  have n: "init_work w1 = None"
    using async_init_fn_init_work [OF f] by simp
  have "init_work_runs (Suc n) h c config d w = Some (d\<lparr>err := e\<rparr>, w1)"
  proof (induction n)
    case 0
    from p obtain dl where "init_work w = Some dl" by auto
    then show ?case
      by (simp add: init_work_run_def pmw3610_async_init_error [OF f e])
  next
    case (Suc n)
    then show ?case
      by (simp add: init_work_run_def n)
  qed
  with n show ?thesis by simp
qed


section \<open>The init sequence as a whole\<close>

lemma init_work_runs_invariant:
  assumes d0: "\<not> ready d0" "async_init_step d0 = 0"
    and run: "init_work_runs n h c config d0 w0 = Some (d, w)"
  shows "(init_work w \<noteq> None \<longrightarrow>
            \<not> ready d \<and> async_init_step d = n
            \<and> (\<forall>i<n. \<exists>di wi wi'. init_work_runs i h c config d0 w0 = Some (di, wi)
                   \<and> async_init_step di = i \<and> init_work wi \<noteq> None
                   \<and> async_init_fn h c config i (wi\<lparr>init_work := None\<rparr>) = Some (0, wi')))
       \<and> (init_work w = None \<and> ready d \<longrightarrow>
            4 \<le> n \<and> async_init_step d = 4 \<and> err d = 0
            \<and> (\<forall>i<4. \<exists>di wi wi'. init_work_runs i h c config d0 w0 = Some (di, wi)
                   \<and> async_init_step di = i \<and> init_work wi \<noteq> None
                   \<and> async_init_fn h c config i (wi\<lparr>init_work := None\<rparr>) = Some (0, wi'))
            \<and> last (trace w) = GpioInterruptConfigure True)"
  using run
proof (induction n arbitrary: d w)
  case 0
  then show ?case using d0 by simp
next
  case (Suc n)
  let ?ok = "\<lambda>i. \<exists>di wi wi'. init_work_runs i h c config d0 w0 = Some (di, wi)
                   \<and> async_init_step di = i \<and> init_work wi \<noteq> None
                   \<and> async_init_fn h c config i (wi\<lparr>init_work := None\<rparr>) = Some (0, wi')"
  from Suc.prems obtain dp wp where
    prev: "init_work_runs n h c config d0 w0 = Some (dp, wp)"
    and step: "init_work_run h c config dp wp = Some (d, w)"
    by (auto split: option.splits)
  note IH = Suc.IH [OF prev]
  show ?case
  proof (cases "init_work wp")
    case None
    with step have same: "d = dp" "w = wp"
      by (simp_all add: init_work_run_def)
    with None IH show ?thesis by auto
  next
    case (Some dl)
    with IH have dp: "\<not> ready dp" "async_init_step dp = n" and oks: "\<forall>i<n. ?ok i"
      by simp_all
    from Some step have ai: "pmw3610_async_init h c config dp (wp\<lparr>init_work := None\<rparr>) = Some (d, w)"
      by (simp add: init_work_run_def)
    then obtain e w1 where
      fn: "async_init_fn h c config (async_init_step dp) (wp\<lparr>init_work := None\<rparr>) = Some (e, w1)"
      by (auto simp add: pmw3610_async_init_def split: option.splits)
    have w1: "init_work w1 = None"
      using async_init_fn_init_work [OF fn] by simp
    show ?thesis
    proof (cases "e = 0")
      case False
      with ai fn have "d = dp\<lparr>err := e\<rparr>" "w = w1"
        by (simp_all add: pmw3610_async_init_error)
      with dp w1 show ?thesis by simp
    next
      case True
      with fn dp Some prev have okn: "?ok n"
        by auto
      with oks have oks': "\<forall>i<Suc n. ?ok i"
        by (auto simp add: less_Suc_eq)
      show ?thesis
      proof (cases "Suc n = 4")
        case True
        with ai fn \<open>e = 0\<close> dp have
          "d = dp\<lparr>err := 0, async_init_step := 4, ready := True\<rparr>" "w = set_interrupt True w1"
          by (simp_all add: pmw3610_async_init_done)
        with True oks' w1 show ?thesis
          by (simp add: set_interrupt_def emit_def)
      next
        case False
        with ai fn \<open>e = 0\<close> dp have
          "d = dp\<lparr>err := 0, async_init_step := Suc n\<rparr>"
          "w = k_work_schedule (async_init_delay c ! Suc n) w1"
          by (simp_all add: pmw3610_async_init_next)
        with dp oks' show ?thesis
          by (simp add: k_work_schedule_def emit_def)
      qed
    qed
  qed
qed

lemma check_ob1_self_test_failure:
  assumes "spi_ret w (spi_count w) = 0" and "spi_rx w (spi_count w) 0 AND 0x0F = 0x0E"
  shows "pmw3610_async_init_check_ob1 h w =
     (- EINVAL, w\<lparr>spi_count := Suc (spi_count w),
                  trace := trace w @ [SpiTransceive (PMW3610_REG_OBSERVATION h) 1]\<rparr>)"
  using assms by (simp add: pmw3610_async_init_check_ob1_def pmw3610_read_reg_eq)

section \<open>One call of the report function, in terms of its intermediate values\<close>

lemma after_smart_fields:
  "dx (fst (after_smart h c d w)) = dx d"
  "dy (fst (after_smart h c d w)) = dy d"
  "last_smp_time (fst (after_smart h c d w)) = last_smp_time d"
  "last_rpt_time (fst (after_smart h c d w)) = last_rpt_time d"
  "ready (fst (after_smart h c d w)) = ready d"
  by (simp_all add: after_smart_def smart_algorithm_def)

lemma pmw3610_report_data_steps:
  assumes "ready d" and "spi_ret w (spi_count w) = 0" and "buf_index_ok h c"
  shows "pmw3610_report_data h c config now d w =
     (if CONFIG_PMW3610_REPORT_INTERVAL_MIN c > 0
         \<and> now - last_rpt_time d < CONFIG_PMW3610_REPORT_INTERVAL_MIN c
      then Some (0, accumulate (sample_of h c w) (purge_stale c now (fst (after_smart h c d w))),
                 snd (after_smart h c d w))
      else Some (0, fetch_and_report c config now
                      (accumulate (sample_of h c w) (purge_stale c now (fst (after_smart h c d w))))
                      (snd (after_smart h c d w))))"
proof -
  have "last_rpt_time (accumulate (sample_of h c w)
          (purge_stale c now (fst (after_smart h c d w)))) = last_rpt_time d"
    by (simp add: accumulate_def purge_stale_def after_smart_fields)
  then show ?thesis
    unfolding pmw3610_report_data_eq [OF assms] Let_def
      burst_buf_def [symmetric] after_burst_read_def [symmetric]
      after_smart_def [symmetric] sample_of_def [symmetric]
    by (simp only:)
qed

lemma sample_of_range:
  "- 2048 \<le> fst (sample_of h c w) \<and> fst (sample_of h c w) \<le> 2048
   \<and> - 2048 \<le> snd (sample_of h c w) \<and> snd (sample_of h c w) \<le> 2048"
proof -
  define p where "p = decode_xy h (burst_buf h w)"
  have r: "- 2048 \<le> fst p" "fst p \<le> 2047" "- 2048 \<le> snd p" "snd p \<le> 2047"
    using decode_xy_range [of h "burst_buf h w"] by (simp_all add: p_def)
  then have n: "to_int16 (- fst p) = - fst p" "to_int16 (- snd p) = - snd p"
    by (simp_all add: to_int16_id)
  have "sample_of h c w = axis_transform c p"
    by (simp add: sample_of_def p_def)
  then show ?thesis
    using r by (simp add: axis_transform_def Let_def n)
qed

lemma sample_of_clamp:
  "max (- 32768) (min 32767 (fst (sample_of h c w))) = fst (sample_of h c w)"
  "max (- 32768) (min 32767 (snd (sample_of h c w))) = snd (sample_of h c w)"
  using sample_of_range [of h c w] by simp_all

lemma fetch_and_report_events:
  "fetch_and_report c config now d w =
     (if max (- 32768) (min 32767 (dx d)) = 0 \<and> max (- 32768) (min 32767 (dy d)) = 0
      then (d, w)
      else ((if CONFIG_PMW3610_REPORT_INTERVAL_MIN c > 0 then d\<lparr>last_rpt_time := now\<rparr> else d)
              \<lparr>dx := 0, dy := 0\<rparr>,
            w\<lparr>trace := trace w @ report_events config (max (- 32768) (min 32767 (dx d)))
                                   (max (- 32768) (min 32767 (dy d)))\<rparr>))"
  unfolding fetch_and_report_eq Let_def report_events_def ..

lemma report_events_none: "report_events config 0 0 = []"
  by (simp add: report_events_def)

text \<open>
  What a call that reaches the emission step returns, from the accumulated values
  \<open>ax\<close>, \<open>ay\<close>.
\<close>

lemma pmw3610_report_data_emission:
  assumes r: "ready d" and e: "spi_ret w (spi_count w) = 0" and b: "buf_index_ok h c"
    and t: "CONFIG_PMW3610_REPORT_INTERVAL_MIN c \<le> 0
            \<or> now - last_rpt_time d \<ge> CONFIG_PMW3610_REPORT_INTERVAL_MIN c"
    and ax: "ax = (if CONFIG_PMW3610_REPORT_INTERVAL_MIN c > 0
                      \<and> now - last_smp_time d \<ge> CONFIG_PMW3610_REPORT_INTERVAL_MIN c
                   then 0 else dx d) + fst (sample_of h c w)"
    and ay: "ay = (if CONFIG_PMW3610_REPORT_INTERVAL_MIN c > 0
                      \<and> now - last_smp_time d \<ge> CONFIG_PMW3610_REPORT_INTERVAL_MIN c
                   then 0 else dy d) + snd (sample_of h c w)"
    and rx: "rx = max (- 32768) (min 32767 ax)" and ry: "ry = max (- 32768) (min 32767 ay)"
  shows "\<exists>d'. pmw3610_report_data h c config now d w =
             Some (0, d', (snd (after_smart h c d w))
                            \<lparr>trace := trace (snd (after_smart h c d w))
                                       @ report_events config rx ry\<rparr>)
           \<and> (rx = 0 \<and> ry = 0 \<longrightarrow> dx d' = ax \<and> dy d' = ay)
           \<and> (rx \<noteq> 0 \<or> ry \<noteq> 0 \<longrightarrow> dx d' = 0 \<and> dy d' = 0)"
proof -
  define s where "s = after_smart h c d w"
  define d3 where "d3 = accumulate (sample_of h c w) (purge_stale c now (fst s))"
  have acc: "dx d3 = ax" "dy d3 = ay"
    by (simp_all add: d3_def s_def accumulate_def purge_stale_def after_smart_fields ax ay)
  from t have "\<not> (CONFIG_PMW3610_REPORT_INTERVAL_MIN c > 0
         \<and> now - last_rpt_time d < CONFIG_PMW3610_REPORT_INTERVAL_MIN c)"
    by auto
  then have res: "pmw3610_report_data h c config now d w
      = Some (0, fetch_and_report c config now d3 (snd s))"
    unfolding pmw3610_report_data_steps [OF r e b] d3_def s_def by (simp only: if_False)
  have far: "fetch_and_report c config now d3 (snd s) =
     (if rx = 0 \<and> ry = 0 then (d3, snd s)
      else ((if CONFIG_PMW3610_REPORT_INTERVAL_MIN c > 0 then d3\<lparr>last_rpt_time := now\<rparr> else d3)
              \<lparr>dx := 0, dy := 0\<rparr>,
            (snd s)\<lparr>trace := trace (snd s) @ report_events config rx ry\<rparr>))"
    unfolding fetch_and_report_events acc rx ry ..
  show ?thesis
  proof (cases "rx = 0 \<and> ry = 0")
    case True
    with far have "fetch_and_report c config now d3 (snd s) = (d3, snd s)"
      by simp
    with res True acc show ?thesis
      unfolding s_def [symmetric] by (simp add: report_events_none)
  next
    case False
    with far have "fetch_and_report c config now d3 (snd s) =
        ((if CONFIG_PMW3610_REPORT_INTERVAL_MIN c > 0 then d3\<lparr>last_rpt_time := now\<rparr> else d3)
              \<lparr>dx := 0, dy := 0\<rparr>,
         (snd s)\<lparr>trace := trace (snd s) @ report_events config rx ry\<rparr>)"
      by simp
    with res False show ?thesis
      unfolding s_def [symmetric] by auto
  qed
qed

text \<open>What a call returns when it does not reach the emission step.\<close>

lemma pmw3610_report_data_held:
  assumes r: "ready d" and e: "spi_ret w (spi_count w) = 0" and b: "buf_index_ok h c"
    and t: "CONFIG_PMW3610_REPORT_INTERVAL_MIN c > 0"
      "now - last_rpt_time d < CONFIG_PMW3610_REPORT_INTERVAL_MIN c"
  shows "pmw3610_report_data h c config now d w =
     Some (0, accumulate (sample_of h c w) (purge_stale c now (fst (after_smart h c d w))),
           snd (after_smart h c d w))"
  using t unfolding pmw3610_report_data_steps [OF r e b] by simp

lemma report_data_ok_facts:
  assumes res: "pmw3610_report_data h c config now d w = Some (0, d', w')"
  shows "ready d \<and> spi_ret w (spi_count w) = 0 \<and> buf_index_ok h c"
proof -
  have r: "ready d"
  proof (rule ccontr)
    assume "\<not> ready d"
    with res show False by (simp add: pmw3610_report_data_def EBUSY_def)
  qed
  have e: "spi_ret w (spi_count w) = 0"
  proof (rule ccontr)
    assume "spi_ret w (spi_count w) \<noteq> 0"
    with res r show False by (simp add: pmw3610_report_data_read_error)
  qed
  have b: "buf_index_ok h c"
  proof (rule ccontr)
    assume "\<not> buf_index_ok h c"
    with res r e show False by (simp add: pmw3610_report_data_def pmw3610_read_eq)
  qed
  from r e b show ?thesis by simp
qed

text \<open>A sampling call after a gap of at least the report interval.\<close>

lemma report_data_after_gap:
  assumes I: "CONFIG_PMW3610_REPORT_INTERVAL_MIN c > 0"
    and gap: "now - last_smp_time d \<ge> CONFIG_PMW3610_REPORT_INTERVAL_MIN c"
    and r: "ready d" and e: "spi_ret w (spi_count w) = 0" and b: "buf_index_ok h c"
  shows "(now - last_rpt_time d < CONFIG_PMW3610_REPORT_INTERVAL_MIN c \<longrightarrow>
            pmw3610_report_data h c config now d w =
              Some (0, (fst (after_smart h c d w))
                         \<lparr>dx := fst (sample_of h c w), dy := snd (sample_of h c w),
                          last_smp_time := now\<rparr>,
                    snd (after_smart h c d w)))
       \<and> (now - last_rpt_time d \<ge> CONFIG_PMW3610_REPORT_INTERVAL_MIN c \<longrightarrow>
            (\<exists>d'. pmw3610_report_data h c config now d w =
                Some (0, d', (snd (after_smart h c d w))
                        \<lparr>trace := trace (snd (after_smart h c d w))
                           @ report_events config (fst (sample_of h c w))
                               (snd (sample_of h c w))\<rparr>)
              \<and> dx d' = 0 \<and> dy d' = 0))"
proof (intro conjI impI)
  assume t: "now - last_rpt_time d < CONFIG_PMW3610_REPORT_INTERVAL_MIN c"
  have "accumulate (sample_of h c w) (purge_stale c now (fst (after_smart h c d w)))
      = (fst (after_smart h c d w))
          \<lparr>dx := fst (sample_of h c w), dy := snd (sample_of h c w), last_smp_time := now\<rparr>"
    using I gap by (simp add: purge_stale_zeroed after_smart_fields accumulate_def)
  then show "pmw3610_report_data h c config now d w =
      Some (0, (fst (after_smart h c d w))
                 \<lparr>dx := fst (sample_of h c w), dy := snd (sample_of h c w),
                  last_smp_time := now\<rparr>,
            snd (after_smart h c d w))"
    using pmw3610_report_data_held [OF r e b I t] by simp
next
  assume t: "now - last_rpt_time d \<ge> CONFIG_PMW3610_REPORT_INTERVAL_MIN c"
  define ax where "ax = (if CONFIG_PMW3610_REPORT_INTERVAL_MIN c > 0
                      \<and> now - last_smp_time d \<ge> CONFIG_PMW3610_REPORT_INTERVAL_MIN c
                   then 0 else dx d) + fst (sample_of h c w)"
  define ay where "ay = (if CONFIG_PMW3610_REPORT_INTERVAL_MIN c > 0
                      \<and> now - last_smp_time d \<ge> CONFIG_PMW3610_REPORT_INTERVAL_MIN c
                   then 0 else dy d) + snd (sample_of h c w)"
  have a: "ax = fst (sample_of h c w)" "ay = snd (sample_of h c w)"
    using I gap by (simp_all add: ax_def ay_def)
  have c: "max (- 32768) (min 32767 ax) = ax" "max (- 32768) (min 32767 ay) = ay"
    unfolding a by (rule sample_of_clamp)+
  from pmw3610_report_data_emission [where now = now and config = config,
      OF r e b _ ax_def ay_def c(1) [symmetric] c(2) [symmetric]] t
  obtain d' where
    res: "pmw3610_report_data h c config now d w =
             Some (0, d', (snd (after_smart h c d w))
                            \<lparr>trace := trace (snd (after_smart h c d w))
                                       @ report_events config ax ay\<rparr>)"
    and z: "ax = 0 \<and> ay = 0 \<longrightarrow> dx d' = ax \<and> dy d' = ay"
    and nz: "ax \<noteq> 0 \<or> ay \<noteq> 0 \<longrightarrow> dx d' = 0 \<and> dy d' = 0"
    by blast
  from z nz have "dx d' = 0 \<and> dy d' = 0"
    by (cases "ax = 0 \<and> ay = 0") auto
  with res a show "\<exists>d'. pmw3610_report_data h c config now d w =
                Some (0, d', (snd (after_smart h c d w))
                        \<lparr>trace := trace (snd (after_smart h c d w))
                           @ report_events config (fst (sample_of h c w))
                               (snd (sample_of h c w))\<rparr>)
              \<and> dx d' = 0 \<and> dy d' = 0"
    by auto
qed

lemma fetch_and_report_step:
  "(let rx = max (- 32768) (min 32767 (dx d)); ry = max (- 32768) (min 32767 (dy d));
        r = fetch_and_report c config now d w
    in (rx = 0 \<and> ry = 0 \<longrightarrow> r = (d, w))
     \<and> (rx \<noteq> 0 \<or> ry \<noteq> 0 \<longrightarrow>
          dx (fst r) = 0 \<and> dy (fst r) = 0
          \<and> trace (snd r) = trace w
               @ (if rx \<noteq> 0
                  then [InputReport (evt_type config) (x_input_code config) rx (ry = 0)] else [])
               @ (if ry \<noteq> 0
                  then [InputReport (evt_type config) (y_input_code config) ry True] else []))
     \<and> (dx d = 40000 \<longrightarrow>
          trace (snd r) ! length (trace w)
            = InputReport (evt_type config) (x_input_code config) 32767 (ry = 0)))
   \<and> (ready d \<and> spi_ret w (spi_count w) = 0 \<and> buf_index_ok h c
        \<and> (CONFIG_PMW3610_REPORT_INTERVAL_MIN c \<le> 0
            \<or> now - last_rpt_time d \<ge> CONFIG_PMW3610_REPORT_INTERVAL_MIN c) \<longrightarrow>
        (\<exists>d3 w3. pmw3610_report_data h c config now d w
                    = Some (0, fetch_and_report c config now d3 w3)))"
proof -
  have "ready d \<and> spi_ret w (spi_count w) = 0 \<and> buf_index_ok h c
        \<and> (CONFIG_PMW3610_REPORT_INTERVAL_MIN c \<le> 0
            \<or> now - last_rpt_time d \<ge> CONFIG_PMW3610_REPORT_INTERVAL_MIN c) \<longrightarrow>
        (\<exists>d3 w3. pmw3610_report_data h c config now d w
                    = Some (0, fetch_and_report c config now d3 w3))"
  proof (intro impI)
    assume a: "ready d \<and> spi_ret w (spi_count w) = 0 \<and> buf_index_ok h c
        \<and> (CONFIG_PMW3610_REPORT_INTERVAL_MIN c \<le> 0
            \<or> now - last_rpt_time d \<ge> CONFIG_PMW3610_REPORT_INTERVAL_MIN c)"
    define buf where "buf = map (spi_rx w (spi_count w)) [0..<PMW3610_BURST_SIZE h]"
    define w1 where "w1 = w\<lparr>spi_count := Suc (spi_count w),
      trace := trace w @ [SpiTransceive (PMW3610_REG_MOTION_BURST h) (PMW3610_BURST_SIZE h)]\<rparr>"
    define s where "s = (if CONFIG_PMW3610_SMART_ALGORITHM c
      then smart_algorithm h (shutter_of h buf) (d, w1) else (d, w1))"
    define d3 where
      "d3 = accumulate (axis_transform c (decode_xy h buf)) (purge_stale c now (fst s))"
    have "last_rpt_time (fst s) = last_rpt_time d"
      by (simp add: s_def smart_algorithm_def)
    then have "last_rpt_time d3 = last_rpt_time d"
      by (simp add: d3_def accumulate_def purge_stale_def)
    with a have "\<not> (CONFIG_PMW3610_REPORT_INTERVAL_MIN c > 0
        \<and> now - last_rpt_time d3 < CONFIG_PMW3610_REPORT_INTERVAL_MIN c)"
      by auto
    moreover from a have "pmw3610_report_data h c config now d w =
        (if CONFIG_PMW3610_REPORT_INTERVAL_MIN c > 0
            \<and> now - last_rpt_time d3 < CONFIG_PMW3610_REPORT_INTERVAL_MIN c
         then Some (0, d3, snd s)
         else Some (0, fetch_and_report c config now d3 (snd s)))"
      unfolding buf_def w1_def s_def d3_def
      by (simp only: pmw3610_report_data_eq Let_def)
    ultimately have "pmw3610_report_data h c config now d w
        = Some (0, fetch_and_report c config now d3 (snd s))"
      by (simp only: if_False)
    then show "\<exists>d3 w3. pmw3610_report_data h c config now d w
                    = Some (0, fetch_and_report c config now d3 w3)"
      by blast
  qed
  moreover have "(let rx = max (- 32768) (min 32767 (dx d)); ry = max (- 32768) (min 32767 (dy d));
        r = fetch_and_report c config now d w
    in (rx = 0 \<and> ry = 0 \<longrightarrow> r = (d, w))
     \<and> (rx \<noteq> 0 \<or> ry \<noteq> 0 \<longrightarrow>
          dx (fst r) = 0 \<and> dy (fst r) = 0
          \<and> trace (snd r) = trace w
               @ (if rx \<noteq> 0
                  then [InputReport (evt_type config) (x_input_code config) rx (ry = 0)] else [])
               @ (if ry \<noteq> 0
                  then [InputReport (evt_type config) (y_input_code config) ry True] else []))
     \<and> (dx d = 40000 \<longrightarrow>
          trace (snd r) ! length (trace w)
            = InputReport (evt_type config) (x_input_code config) 32767 (ry = 0)))"
    by (simp add: fetch_and_report_eq Let_def)
  ultimately show ?thesis by blast
qed


lemma purge_then_accumulate:
  assumes "CONFIG_PMW3610_REPORT_INTERVAL_MIN c = I" and "I > 0"
  shows "(now - last_smp_time d \<ge> I \<longrightarrow>
            accumulate p (purge_stale c now d)
              = d\<lparr>dx := fst p, dy := snd p, last_smp_time := now\<rparr>)
       \<and> (now - last_smp_time d \<ge> I \<and> ready d \<and> spi_ret w (spi_count w) = 0 \<longrightarrow>
            pmw3610_report_data h c config now d w
              = pmw3610_report_data h c config now (d\<lparr>dx := 0, dy := 0\<rparr>) w)
       \<and> (pmw3610_report_data h c config t0 d0 w0 = Some (0, d1, w1)
            \<and> spi_ret w1 (spi_count w1) = 0 \<longrightarrow>
            pmw3610_report_data h c config (t0 + 2 * I) d1 w1
              = pmw3610_report_data h c config (t0 + 2 * I) (d1\<lparr>dx := 0, dy := 0\<rparr>) w1)"
proof (intro conjI impI)
  assume "now - last_smp_time d \<ge> I"
  with assms show "accumulate p (purge_stale c now d)
      = d\<lparr>dx := fst p, dy := snd p, last_smp_time := now\<rparr>"
    by (simp add: purge_stale_zeroed accumulate_def)
next
  assume "now - last_smp_time d \<ge> I \<and> ready d \<and> spi_ret w (spi_count w) = 0"
  with assms show "pmw3610_report_data h c config now d w
      = pmw3610_report_data h c config now (d\<lparr>dx := 0, dy := 0\<rparr>) w"
    by (intro report_data_ignores_stale_deltas) simp_all
next
  assume a: "pmw3610_report_data h c config t0 d0 w0 = Some (0, d1, w1)
      \<and> spi_ret w1 (spi_count w1) = 0"
  then have "ready d1 \<and> last_smp_time d1 = t0"
    using assms by (intro report_data_last_smp_time [of h c config t0 d0 w0 d1 w1]) simp_all
  with a assms show "pmw3610_report_data h c config (t0 + 2 * I) d1 w1
      = pmw3610_report_data h c config (t0 + 2 * I) (d1\<lparr>dx := 0, dy := 0\<rparr>) w1"
    by (intro report_data_ignores_stale_deltas) simp_all
qed


text \<open>
  C6. In the emission step the candidates \<open>rx\<close>, \<open>ry\<close> are the accumulators clamped to
  \<open>[-32768, 32767]\<close>. When both are zero nothing changes: no event, accumulators kept.
  Otherwise both accumulators are reset and the trace gains an X event if \<open>rx\<close> is not
  zero, whose sync flag is false (more follows) exactly when \<open>ry\<close> is not zero, then a Y
  event with sync flag true if \<open>ry\<close> is not zero. An accumulated \<open>dx\<close> of 40000 is
  reported as 32767. A call of \<open>pmw3610_report_data\<close> on a ready device whose burst read
  succeeded, with no report interval configured or with that interval elapsed since the
  last report, ends in this step. Of such a call itself: with \<open>ax\<close>, \<open>ay\<close> the
  accumulators after the purge plus the sample, and \<open>rx\<close>, \<open>ry\<close> their clamped values,
  it returns 0, the world is the one after the burst read and the smart algorithm with
  exactly the events for \<open>rx\<close>, \<open>ry\<close> appended to the trace, and the accumulators are
  \<open>ax\<close>, \<open>ay\<close> when \<open>rx\<close> and \<open>ry\<close> are both zero and are reset to zero otherwise.
\<close>

theorem fetch_and_report_clamps_and_gates:
  "(let rx = max (- 32768) (min 32767 (dx d)); ry = max (- 32768) (min 32767 (dy d));
        r = fetch_and_report c config now d w
    in (rx = 0 \<and> ry = 0 \<longrightarrow> r = (d, w))
     \<and> (rx \<noteq> 0 \<or> ry \<noteq> 0 \<longrightarrow>
          dx (fst r) = 0 \<and> dy (fst r) = 0
          \<and> trace (snd r) = trace w
               @ (if rx \<noteq> 0
                  then [InputReport (evt_type config) (x_input_code config) rx (ry = 0)] else [])
               @ (if ry \<noteq> 0
                  then [InputReport (evt_type config) (y_input_code config) ry True] else []))
     \<and> (dx d = 40000 \<longrightarrow>
          trace (snd r) ! length (trace w)
            = InputReport (evt_type config) (x_input_code config) 32767 (ry = 0)))
   \<and> (ready d \<and> spi_ret w (spi_count w) = 0 \<and> buf_index_ok h c
        \<and> (CONFIG_PMW3610_REPORT_INTERVAL_MIN c \<le> 0
            \<or> now - last_rpt_time d \<ge> CONFIG_PMW3610_REPORT_INTERVAL_MIN c) \<longrightarrow>
        (\<exists>d3 w3. pmw3610_report_data h c config now d w
                    = Some (0, fetch_and_report c config now d3 w3)))
   \<and> (ready d \<and> spi_ret w (spi_count w) = 0 \<and> buf_index_ok h c
        \<and> (CONFIG_PMW3610_REPORT_INTERVAL_MIN c \<le> 0
            \<or> now - last_rpt_time d \<ge> CONFIG_PMW3610_REPORT_INTERVAL_MIN c) \<longrightarrow>
        (let ax = (if CONFIG_PMW3610_REPORT_INTERVAL_MIN c > 0
                      \<and> now - last_smp_time d \<ge> CONFIG_PMW3610_REPORT_INTERVAL_MIN c
                   then 0 else dx d) + fst (sample_of h c w);
             ay = (if CONFIG_PMW3610_REPORT_INTERVAL_MIN c > 0
                      \<and> now - last_smp_time d \<ge> CONFIG_PMW3610_REPORT_INTERVAL_MIN c
                   then 0 else dy d) + snd (sample_of h c w);
             rx = max (- 32768) (min 32767 ax);
             ry = max (- 32768) (min 32767 ay)
         in \<exists>d'. pmw3610_report_data h c config now d w =
                   Some (0, d', (snd (after_smart h c d w))
                                  \<lparr>trace := trace (snd (after_smart h c d w))
                                             @ report_events config rx ry\<rparr>)
               \<and> (rx = 0 \<and> ry = 0 \<longrightarrow> dx d' = ax \<and> dy d' = ay)
               \<and> (rx \<noteq> 0 \<or> ry \<noteq> 0 \<longrightarrow> dx d' = 0 \<and> dy d' = 0)))
   \<and> report_events config x y =
        (if x \<noteq> 0 then [InputReport (evt_type config) (x_input_code config) x (y = 0)] else [])
        @ (if y \<noteq> 0 then [InputReport (evt_type config) (y_input_code config) y True] else [])"
proof -
  note o = fetch_and_report_step [of d c config now w h]
  have n1: "ready d \<and> spi_ret w (spi_count w) = 0 \<and> buf_index_ok h c
        \<and> (CONFIG_PMW3610_REPORT_INTERVAL_MIN c \<le> 0
            \<or> now - last_rpt_time d \<ge> CONFIG_PMW3610_REPORT_INTERVAL_MIN c) \<longrightarrow>
        (let ax = (if CONFIG_PMW3610_REPORT_INTERVAL_MIN c > 0
                      \<and> now - last_smp_time d \<ge> CONFIG_PMW3610_REPORT_INTERVAL_MIN c
                   then 0 else dx d) + fst (sample_of h c w);
             ay = (if CONFIG_PMW3610_REPORT_INTERVAL_MIN c > 0
                      \<and> now - last_smp_time d \<ge> CONFIG_PMW3610_REPORT_INTERVAL_MIN c
                   then 0 else dy d) + snd (sample_of h c w);
             rx = max (- 32768) (min 32767 ax);
             ry = max (- 32768) (min 32767 ay)
         in \<exists>d'. pmw3610_report_data h c config now d w =
                   Some (0, d', (snd (after_smart h c d w))
                                  \<lparr>trace := trace (snd (after_smart h c d w))
                                             @ report_events config rx ry\<rparr>)
               \<and> (rx = 0 \<and> ry = 0 \<longrightarrow> dx d' = ax \<and> dy d' = ay)
               \<and> (rx \<noteq> 0 \<or> ry \<noteq> 0 \<longrightarrow> dx d' = 0 \<and> dy d' = 0))"
  proof (intro impI)
    assume a: "ready d \<and> spi_ret w (spi_count w) = 0 \<and> buf_index_ok h c
        \<and> (CONFIG_PMW3610_REPORT_INTERVAL_MIN c \<le> 0
            \<or> now - last_rpt_time d \<ge> CONFIG_PMW3610_REPORT_INTERVAL_MIN c)"
    then have r: "ready d" and e: "spi_ret w (spi_count w) = 0" and b: "buf_index_ok h c"
      and t: "CONFIG_PMW3610_REPORT_INTERVAL_MIN c \<le> 0
            \<or> now - last_rpt_time d \<ge> CONFIG_PMW3610_REPORT_INTERVAL_MIN c"
      by simp_all
    show "let ax = (if CONFIG_PMW3610_REPORT_INTERVAL_MIN c > 0
                      \<and> now - last_smp_time d \<ge> CONFIG_PMW3610_REPORT_INTERVAL_MIN c
                   then 0 else dx d) + fst (sample_of h c w);
             ay = (if CONFIG_PMW3610_REPORT_INTERVAL_MIN c > 0
                      \<and> now - last_smp_time d \<ge> CONFIG_PMW3610_REPORT_INTERVAL_MIN c
                   then 0 else dy d) + snd (sample_of h c w);
             rx = max (- 32768) (min 32767 ax);
             ry = max (- 32768) (min 32767 ay)
         in \<exists>d'. pmw3610_report_data h c config now d w =
                   Some (0, d', (snd (after_smart h c d w))
                                  \<lparr>trace := trace (snd (after_smart h c d w))
                                             @ report_events config rx ry\<rparr>)
               \<and> (rx = 0 \<and> ry = 0 \<longrightarrow> dx d' = ax \<and> dy d' = ay)
               \<and> (rx \<noteq> 0 \<or> ry \<noteq> 0 \<longrightarrow> dx d' = 0 \<and> dy d' = 0)"
      unfolding Let_def
      by (rule pmw3610_report_data_emission [OF r e b t refl refl refl refl])
  qed
  have n2: "report_events config x y =
        (if x \<noteq> 0 then [InputReport (evt_type config) (x_input_code config) x (y = 0)] else [])
        @ (if y \<noteq> 0 then [InputReport (evt_type config) (y_input_code config) y True] else [])"
    by (rule report_events_def)
  show ?thesis
    by (rule conjI [OF o [THEN conjunct1] conjI [OF o [THEN conjunct2] conjI [OF n1 n2]]])
qed

text \<open>
  C5. With a report interval \<open>I > 0\<close> configured: when the gap since the last sample is
  at least \<open>I\<close> (so also when it exceeds \<open>I\<close>), purge and accumulate leave exactly the new
  delta in the accumulators, and a call of \<open>pmw3610_report_data\<close> that takes a sample
  (device ready, burst read succeeded) gives the result it gives from zeroed
  accumulators. What such a call returns: if the interval since the last report has not
  elapsed, the device after the smart algorithm with the accumulators set to the sample
  just read and the sample time stamped, and no event; if it has elapsed, the events for
  the sample just read alone, and zero accumulators. In particular, after a call at
  \<open>t0\<close> that took a sample (it returned 0), a sample at \<open>t0 + 2 * I\<close> is handled so:
  whatever the first call left in the accumulators is gone.
\<close>

theorem stale_deltas_are_purged:
  assumes "CONFIG_PMW3610_REPORT_INTERVAL_MIN c = I" and "I > 0"
  shows "(now - last_smp_time d \<ge> I \<longrightarrow>
            accumulate p (purge_stale c now d)
              = d\<lparr>dx := fst p, dy := snd p, last_smp_time := now\<rparr>)
       \<and> (now - last_smp_time d \<ge> I \<and> ready d \<and> spi_ret w (spi_count w) = 0 \<longrightarrow>
            pmw3610_report_data h c config now d w
              = pmw3610_report_data h c config now (d\<lparr>dx := 0, dy := 0\<rparr>) w)
       \<and> (pmw3610_report_data h c config t0 d0 w0 = Some (0, d1, w1)
            \<and> spi_ret w1 (spi_count w1) = 0 \<longrightarrow>
            pmw3610_report_data h c config (t0 + 2 * I) d1 w1
              = pmw3610_report_data h c config (t0 + 2 * I) (d1\<lparr>dx := 0, dy := 0\<rparr>) w1)
       \<and> (now - last_smp_time d \<ge> I \<and> ready d \<and> spi_ret w (spi_count w) = 0
            \<and> buf_index_ok h c \<longrightarrow>
            (now - last_rpt_time d < I \<longrightarrow>
               pmw3610_report_data h c config now d w =
                 Some (0, (fst (after_smart h c d w))
                            \<lparr>dx := fst (sample_of h c w), dy := snd (sample_of h c w),
                             last_smp_time := now\<rparr>,
                       snd (after_smart h c d w)))
            \<and> (now - last_rpt_time d \<ge> I \<longrightarrow>
               (\<exists>d'. pmw3610_report_data h c config now d w =
                   Some (0, d', (snd (after_smart h c d w))
                           \<lparr>trace := trace (snd (after_smart h c d w))
                              @ report_events config (fst (sample_of h c w))
                                  (snd (sample_of h c w))\<rparr>)
                 \<and> dx d' = 0 \<and> dy d' = 0)))
       \<and> (pmw3610_report_data h c config t0 d0 w0 = Some (0, d1, w1)
            \<and> spi_ret w1 (spi_count w1) = 0 \<longrightarrow>
            (t0 + 2 * I - last_rpt_time d1 < I \<longrightarrow>
               pmw3610_report_data h c config (t0 + 2 * I) d1 w1 =
                 Some (0, (fst (after_smart h c d1 w1))
                            \<lparr>dx := fst (sample_of h c w1), dy := snd (sample_of h c w1),
                             last_smp_time := t0 + 2 * I\<rparr>,
                       snd (after_smart h c d1 w1)))
            \<and> (t0 + 2 * I - last_rpt_time d1 \<ge> I \<longrightarrow>
               (\<exists>d'. pmw3610_report_data h c config (t0 + 2 * I) d1 w1 =
                   Some (0, d', (snd (after_smart h c d1 w1))
                           \<lparr>trace := trace (snd (after_smart h c d1 w1))
                              @ report_events config (fst (sample_of h c w1))
                                  (snd (sample_of h c w1))\<rparr>)
                 \<and> dx d' = 0 \<and> dy d' = 0)))"
proof -
  note o = purge_then_accumulate [OF assms, of now d p w h config t0 d0 w0 d1 w1]
  have I: "CONFIG_PMW3610_REPORT_INTERVAL_MIN c > 0"
    using assms by simp
  have n4: "now - last_smp_time d \<ge> I \<and> ready d \<and> spi_ret w (spi_count w) = 0
            \<and> buf_index_ok h c \<longrightarrow>
            (now - last_rpt_time d < I \<longrightarrow>
               pmw3610_report_data h c config now d w =
                 Some (0, (fst (after_smart h c d w))
                            \<lparr>dx := fst (sample_of h c w), dy := snd (sample_of h c w),
                             last_smp_time := now\<rparr>,
                       snd (after_smart h c d w)))
            \<and> (now - last_rpt_time d \<ge> I \<longrightarrow>
               (\<exists>d'. pmw3610_report_data h c config now d w =
                   Some (0, d', (snd (after_smart h c d w))
                           \<lparr>trace := trace (snd (after_smart h c d w))
                              @ report_events config (fst (sample_of h c w))
                                  (snd (sample_of h c w))\<rparr>)
                 \<and> dx d' = 0 \<and> dy d' = 0))"
  proof (intro impI)
    assume a: "now - last_smp_time d \<ge> I \<and> ready d \<and> spi_ret w (spi_count w) = 0
            \<and> buf_index_ok h c"
    then have gap: "now - last_smp_time d \<ge> CONFIG_PMW3610_REPORT_INTERVAL_MIN c"
      and r: "ready d" and e: "spi_ret w (spi_count w) = 0" and b: "buf_index_ok h c"
      using assms by simp_all
    show "(now - last_rpt_time d < I \<longrightarrow>
               pmw3610_report_data h c config now d w =
                 Some (0, (fst (after_smart h c d w))
                            \<lparr>dx := fst (sample_of h c w), dy := snd (sample_of h c w),
                             last_smp_time := now\<rparr>,
                       snd (after_smart h c d w)))
            \<and> (now - last_rpt_time d \<ge> I \<longrightarrow>
               (\<exists>d'. pmw3610_report_data h c config now d w =
                   Some (0, d', (snd (after_smart h c d w))
                           \<lparr>trace := trace (snd (after_smart h c d w))
                              @ report_events config (fst (sample_of h c w))
                                  (snd (sample_of h c w))\<rparr>)
                 \<and> dx d' = 0 \<and> dy d' = 0))"
      using report_data_after_gap [OF I gap r e b, of config]
      unfolding assms(1) .
  qed
  have n5: "pmw3610_report_data h c config t0 d0 w0 = Some (0, d1, w1)
            \<and> spi_ret w1 (spi_count w1) = 0 \<longrightarrow>
            (t0 + 2 * I - last_rpt_time d1 < I \<longrightarrow>
               pmw3610_report_data h c config (t0 + 2 * I) d1 w1 =
                 Some (0, (fst (after_smart h c d1 w1))
                            \<lparr>dx := fst (sample_of h c w1), dy := snd (sample_of h c w1),
                             last_smp_time := t0 + 2 * I\<rparr>,
                       snd (after_smart h c d1 w1)))
            \<and> (t0 + 2 * I - last_rpt_time d1 \<ge> I \<longrightarrow>
               (\<exists>d'. pmw3610_report_data h c config (t0 + 2 * I) d1 w1 =
                   Some (0, d', (snd (after_smart h c d1 w1))
                           \<lparr>trace := trace (snd (after_smart h c d1 w1))
                              @ report_events config (fst (sample_of h c w1))
                                  (snd (sample_of h c w1))\<rparr>)
                 \<and> dx d' = 0 \<and> dy d' = 0))"
  proof (intro impI)
    assume a: "pmw3610_report_data h c config t0 d0 w0 = Some (0, d1, w1)
            \<and> spi_ret w1 (spi_count w1) = 0"
    then have first: "pmw3610_report_data h c config t0 d0 w0 = Some (0, d1, w1)"
      and e: "spi_ret w1 (spi_count w1) = 0"
      by simp_all
    have b: "buf_index_ok h c"
      using report_data_ok_facts [OF first] by simp
    have d1: "ready d1" "last_smp_time d1 = t0"
      using report_data_last_smp_time [OF first I] by simp_all
    have gap: "t0 + 2 * I - last_smp_time d1 \<ge> CONFIG_PMW3610_REPORT_INTERVAL_MIN c"
      using assms d1 by simp
    show "(t0 + 2 * I - last_rpt_time d1 < I \<longrightarrow>
               pmw3610_report_data h c config (t0 + 2 * I) d1 w1 =
                 Some (0, (fst (after_smart h c d1 w1))
                            \<lparr>dx := fst (sample_of h c w1), dy := snd (sample_of h c w1),
                             last_smp_time := t0 + 2 * I\<rparr>,
                       snd (after_smart h c d1 w1)))
            \<and> (t0 + 2 * I - last_rpt_time d1 \<ge> I \<longrightarrow>
               (\<exists>d'. pmw3610_report_data h c config (t0 + 2 * I) d1 w1 =
                   Some (0, d', (snd (after_smart h c d1 w1))
                           \<lparr>trace := trace (snd (after_smart h c d1 w1))
                              @ report_events config (fst (sample_of h c w1))
                                  (snd (sample_of h c w1))\<rparr>)
                 \<and> dx d' = 0 \<and> dy d' = 0))"
      using report_data_after_gap [OF I gap d1(1) e b, of config]
      unfolding assms(1) .
  qed
  show ?thesis
    by (rule conjI [OF o [THEN conjunct1] conjI [OF o [THEN conjunct2, THEN conjunct1]
          conjI [OF o [THEN conjunct2, THEN conjunct2] conjI [OF n4 n5]]]])
qed

lemma sample_of_sample:
  "spi_rx w = (\<lambda>k i. if i = 1 then 3 else 0) \<Longrightarrow>
   sample_of sample_h (sample_kconfig\<lparr>CONFIG_PMW3610_REPORT_INTERVAL_MIN := I\<rparr>) w = (0, 3)"
  by (simp add: sample_of_def burst_buf_def decode_xy_eq axis_transform_def sample_h_def
      sample_kconfig_def to_int16_id Let_def)

lemma after_smart_sample:
  "spi_rx w = (\<lambda>k i. if i = 1 then 3 else 0) \<Longrightarrow> \<not> sw_smart_flag d \<Longrightarrow>
   after_smart sample_h (sample_kconfig\<lparr>CONFIG_PMW3610_REPORT_INTERVAL_MIN := I\<rparr>) d w
     = (d, w\<lparr>spi_count := Suc (spi_count w), trace := trace w @ [SpiTransceive 0x12 7]\<rparr>)"
  by (simp add: after_smart_def after_burst_read_def smart_algorithm_def shutter_of_eq
      burst_buf_def sample_h_def sample_kconfig_def)

theorem stale_deltas_are_purged_witness:
  "CONFIG_PMW3610_REPORT_INTERVAL_MIN sample_kconfig = 12 \<and> (12::int) > 0
   \<and> accumulate (0, 3)
        (purge_stale sample_kconfig 1024
           (zeroed_device\<lparr>ready := True, last_rpt_time := 995, dy := 3, last_smp_time := 1000\<rparr>))
      = zeroed_device\<lparr>ready := True, last_rpt_time := 995, dy := 3, last_smp_time := 1024\<rparr>
   \<and> pmw3610_report_data sample_h sample_kconfig sample_config 1024
        (zeroed_device\<lparr>ready := True, last_rpt_time := 995, dy := 3, last_smp_time := 1000\<rparr>)
        ((fresh_world (\<lambda>k. 0) (\<lambda>k i. if i = 1 then 3 else 0))
             \<lparr>spi_count := 1, trace := [SpiTransceive 0x12 7]\<rparr>)
      = pmw3610_report_data sample_h sample_kconfig sample_config 1024
        (zeroed_device\<lparr>ready := True, last_rpt_time := 995, dy := 0, last_smp_time := 1000\<rparr>)
        ((fresh_world (\<lambda>k. 0) (\<lambda>k i. if i = 1 then 3 else 0))
             \<lparr>spi_count := 1, trace := [SpiTransceive 0x12 7]\<rparr>)
   \<and> (\<exists>d'. pmw3610_report_data sample_h sample_kconfig sample_config 1024
        (zeroed_device\<lparr>ready := True, last_rpt_time := 995, dy := 3, last_smp_time := 1000\<rparr>)
        ((fresh_world (\<lambda>k. 0) (\<lambda>k i. if i = 1 then 3 else 0))
             \<lparr>spi_count := 1, trace := [SpiTransceive 0x12 7]\<rparr>)
      = Some (0, d', (fresh_world (\<lambda>k. 0) (\<lambda>k i. if i = 1 then 3 else 0))
             \<lparr>spi_count := 2,
              trace := [SpiTransceive 0x12 7, SpiTransceive 0x12 7, InputReport 2 1 3 True]\<rparr>)
      \<and> dx d' = 0 \<and> dy d' = 0)"
proof -
  let ?d1 = "zeroed_device\<lparr>ready := True, last_rpt_time := 995, dy := 3, last_smp_time := 1000\<rparr>"
  let ?w0 = "fresh_world (\<lambda>k. 0) (\<lambda>k i. if i = 1 then 3 else 0)"
  let ?w1 = "?w0\<lparr>spi_count := 1, trace := [SpiTransceive 0x12 7]\<rparr>"
  have I: "CONFIG_PMW3610_REPORT_INTERVAL_MIN sample_kconfig = 12"
    by (simp add: sample_kconfig_def)
  have pos: "(12::int) > 0"
    by simp
  note t = stale_deltas_are_purged [OF I pos, of 1024 ?d1 "(0, 3)" ?w1
      sample_h sample_config 1000 "zeroed_device\<lparr>ready := True, last_rpt_time := 995\<rparr>"
      ?w0 ?d1 ?w1]
  have a: "accumulate (0, 3) (purge_stale sample_kconfig 1024 ?d1)
      = zeroed_device\<lparr>ready := True, last_rpt_time := 995, dy := 3, last_smp_time := 1024\<rparr>"
    using t [THEN conjunct1] by (simp add: zeroed_device_def)
  have e1: "spi_ret ?w1 (spi_count ?w1) = 0"
    by (simp add: fresh_world_def)
  have b: "pmw3610_report_data sample_h sample_kconfig sample_config (1000 + 2 * 12) ?d1 ?w1
      = pmw3610_report_data sample_h sample_kconfig sample_config (1000 + 2 * 12)
          (?d1\<lparr>dx := 0, dy := 0\<rparr>) ?w1"
    using t [THEN conjunct2, THEN conjunct2, THEN conjunct1] sample_first_sample e1
    by blast
  have k: "sample_kconfig = sample_kconfig\<lparr>CONFIG_PMW3610_REPORT_INTERVAL_MIN := 12\<rparr>"
    by (simp add: sample_kconfig_def)
  have rx: "spi_rx ?w1 = (\<lambda>k i. if i = 1 then 3 else 0)"
    by (simp add: fresh_world_def)
  have nf: "\<not> sw_smart_flag ?d1"
    by (simp add: zeroed_device_def)
  have so: "sample_of sample_h sample_kconfig ?w1 = (0, 3)"
    using sample_of_sample [OF rx, of 12] k by simp
  have as: "after_smart sample_h sample_kconfig ?d1 ?w1
      = (?d1, ?w1\<lparr>spi_count := Suc (spi_count ?w1),
                   trace := trace ?w1 @ [SpiTransceive 0x12 7]\<rparr>)"
    using after_smart_sample [OF rx nf, of 12] k by simp
  have late: "(1000::int) + 2 * 12 - last_rpt_time ?d1 \<ge> 12"
    by (simp add: zeroed_device_def)
  from t [THEN conjunct2, THEN conjunct2, THEN conjunct2, THEN conjunct2]
    sample_first_sample e1 late
  have "\<exists>d'. pmw3610_report_data sample_h sample_kconfig sample_config (1000 + 2 * 12) ?d1 ?w1 =
      Some (0, d', (snd (after_smart sample_h sample_kconfig ?d1 ?w1))
              \<lparr>trace := trace (snd (after_smart sample_h sample_kconfig ?d1 ?w1))
                 @ report_events sample_config (fst (sample_of sample_h sample_kconfig ?w1))
                     (snd (sample_of sample_h sample_kconfig ?w1))\<rparr>)
      \<and> dx d' = 0 \<and> dy d' = 0"
    by blast
  then have c: "\<exists>d'. pmw3610_report_data sample_h sample_kconfig sample_config 1024 ?d1 ?w1
      = Some (0, d', ?w0\<lparr>spi_count := 2,
              trace := [SpiTransceive 0x12 7, SpiTransceive 0x12 7, InputReport 2 1 3 True]\<rparr>)
      \<and> dx d' = 0 \<and> dy d' = 0"
    unfolding so as
    by (simp add: report_events_def sample_config_def fresh_world_def numeral_2_eq_2)
  from b have b': "pmw3610_report_data sample_h sample_kconfig sample_config 1024 ?d1 ?w1
      = pmw3610_report_data sample_h sample_kconfig sample_config 1024
          (zeroed_device\<lparr>ready := True, last_rpt_time := 995, dy := 0, last_smp_time := 1000\<rparr>)
          ?w1"
    by (simp add: zeroed_device_def)
  from I pos a b' c show ?thesis
    by blast
qed

theorem fetch_and_report_clamps_and_gates_witness:
  "fetch_and_report sample_kconfig sample_config 1000 zeroed_device (fresh_world (\<lambda>k. 0) (\<lambda>k i. 0))
     = (zeroed_device, fresh_world (\<lambda>k. 0) (\<lambda>k i. 0))
   \<and> dx (fst (fetch_and_report sample_kconfig sample_config 1000
                 (zeroed_device\<lparr>dx := 40000\<rparr>) (fresh_world (\<lambda>k. 0) (\<lambda>k i. 0)))) = 0
   \<and> trace (snd (fetch_and_report sample_kconfig sample_config 1000
                 (zeroed_device\<lparr>dx := 40000\<rparr>) (fresh_world (\<lambda>k. 0) (\<lambda>k i. 0))))
       = [InputReport 2 0 32767 True]
   \<and> trace (snd (fetch_and_report sample_kconfig sample_config 1000
                 (zeroed_device\<lparr>dx := - 3, dy := 5\<rparr>) (fresh_world (\<lambda>k. 0) (\<lambda>k i. 0))))
       = [InputReport 2 0 (- 3) False, InputReport 2 1 5 True]
   \<and> (\<exists>d3 w3. pmw3610_report_data sample_h
                  (sample_kconfig\<lparr>CONFIG_PMW3610_REPORT_INTERVAL_MIN := 0\<rparr>) sample_config 1000
                  (zeroed_device\<lparr>ready := True\<rparr>) (fresh_world (\<lambda>k. 0) (\<lambda>k i. 0))
                = Some (0, fetch_and_report
                             (sample_kconfig\<lparr>CONFIG_PMW3610_REPORT_INTERVAL_MIN := 0\<rparr>)
                             sample_config 1000 d3 w3))
   \<and> (\<exists>d'. pmw3610_report_data sample_h
               (sample_kconfig\<lparr>CONFIG_PMW3610_REPORT_INTERVAL_MIN := 0\<rparr>) sample_config 1000
               (zeroed_device\<lparr>ready := True, dx := 40000\<rparr>)
               (fresh_world (\<lambda>k. 0) (\<lambda>k i. if i = 1 then 3 else 0))
             = Some (0, d', (fresh_world (\<lambda>k. 0) (\<lambda>k i. if i = 1 then 3 else 0))
                   \<lparr>spi_count := 1,
                    trace := [SpiTransceive 0x12 7, InputReport 2 0 32767 False,
                              InputReport 2 1 3 True]\<rparr>)
           \<and> dx d' = 0 \<and> dy d' = 0)"
proof -
  let ?c0 = "sample_kconfig\<lparr>CONFIG_PMW3610_REPORT_INTERVAL_MIN := 0\<rparr>"
  let ?w = "fresh_world (\<lambda>k. 0) (\<lambda>k i. if i = 1 then 3 else 0)"
  let ?d = "zeroed_device\<lparr>ready := True, dx := 40000\<rparr>"
  have a: "fetch_and_report sample_kconfig sample_config 1000 zeroed_device
             (fresh_world (\<lambda>k. 0) (\<lambda>k i. 0))
           = (zeroed_device, fresh_world (\<lambda>k. 0) (\<lambda>k i. 0))"
    using fetch_and_report_clamps_and_gates
      [of zeroed_device sample_kconfig sample_config 1000 "fresh_world (\<lambda>k. 0) (\<lambda>k i. 0)",
       THEN conjunct1]
    by (simp add: Let_def zeroed_device_def)
  have b: "dx (fst (fetch_and_report sample_kconfig sample_config 1000
                 (zeroed_device\<lparr>dx := 40000\<rparr>) (fresh_world (\<lambda>k. 0) (\<lambda>k i. 0)))) = 0
     \<and> trace (snd (fetch_and_report sample_kconfig sample_config 1000
                 (zeroed_device\<lparr>dx := 40000\<rparr>) (fresh_world (\<lambda>k. 0) (\<lambda>k i. 0))))
       = [InputReport 2 0 32767 True]"
    using fetch_and_report_clamps_and_gates
      [of "zeroed_device\<lparr>dx := 40000\<rparr>" sample_kconfig sample_config 1000
          "fresh_world (\<lambda>k. 0) (\<lambda>k i. 0)", THEN conjunct1]
    by (simp add: Let_def zeroed_device_def sample_config_def fresh_world_def)
  have c: "trace (snd (fetch_and_report sample_kconfig sample_config 1000
                 (zeroed_device\<lparr>dx := - 3, dy := 5\<rparr>) (fresh_world (\<lambda>k. 0) (\<lambda>k i. 0))))
       = [InputReport 2 0 (- 3) False, InputReport 2 1 5 True]"
    using fetch_and_report_clamps_and_gates
      [of "zeroed_device\<lparr>dx := - 3, dy := 5\<rparr>" sample_kconfig sample_config 1000
          "fresh_world (\<lambda>k. 0) (\<lambda>k i. 0)", THEN conjunct1]
    by (simp add: Let_def zeroed_device_def sample_config_def fresh_world_def)
  have d: "\<exists>d3 w3. pmw3610_report_data sample_h ?c0 sample_config 1000
                  (zeroed_device\<lparr>ready := True\<rparr>) (fresh_world (\<lambda>k. 0) (\<lambda>k i. 0))
                = Some (0, fetch_and_report ?c0 sample_config 1000 d3 w3)"
    using fetch_and_report_clamps_and_gates
      [of "zeroed_device\<lparr>ready := True\<rparr>" ?c0 sample_config 1000
          "fresh_world (\<lambda>k. 0) (\<lambda>k i. 0)" sample_h, THEN conjunct2, THEN conjunct1]
    by (simp add: Let_def fresh_world_def buf_index_ok_def sample_h_def)
  have pre: "ready ?d \<and> spi_ret ?w (spi_count ?w) = 0 \<and> buf_index_ok sample_h ?c0
      \<and> (CONFIG_PMW3610_REPORT_INTERVAL_MIN ?c0 \<le> 0
          \<or> 1000 - last_rpt_time ?d \<ge> CONFIG_PMW3610_REPORT_INTERVAL_MIN ?c0)"
    by (simp add: fresh_world_def buf_index_ok_def sample_h_def)
  have rx: "spi_rx ?w = (\<lambda>k i. if i = 1 then 3 else 0)"
    by (simp add: fresh_world_def)
  have nf: "\<not> sw_smart_flag ?d"
    by (simp add: zeroed_device_def)
  note so = sample_of_sample [OF rx, of 0]
  note as = after_smart_sample [OF rx nf, of 0]
  from fetch_and_report_clamps_and_gates
      [of ?d ?c0 sample_config 1000 ?w sample_h,
       THEN conjunct2, THEN conjunct2, THEN conjunct1] pre
  have "let ax = (if CONFIG_PMW3610_REPORT_INTERVAL_MIN ?c0 > 0
                      \<and> 1000 - last_smp_time ?d \<ge> CONFIG_PMW3610_REPORT_INTERVAL_MIN ?c0
                   then 0 else dx ?d) + fst (sample_of sample_h ?c0 ?w);
             ay = (if CONFIG_PMW3610_REPORT_INTERVAL_MIN ?c0 > 0
                      \<and> 1000 - last_smp_time ?d \<ge> CONFIG_PMW3610_REPORT_INTERVAL_MIN ?c0
                   then 0 else dy ?d) + snd (sample_of sample_h ?c0 ?w);
             rx = max (- 32768) (min 32767 ax);
             ry = max (- 32768) (min 32767 ay)
         in \<exists>d'. pmw3610_report_data sample_h ?c0 sample_config 1000 ?d ?w =
                   Some (0, d', (snd (after_smart sample_h ?c0 ?d ?w))
                                  \<lparr>trace := trace (snd (after_smart sample_h ?c0 ?d ?w))
                                             @ report_events sample_config rx ry\<rparr>)
               \<and> (rx = 0 \<and> ry = 0 \<longrightarrow> dx d' = ax \<and> dy d' = ay)
               \<and> (rx \<noteq> 0 \<or> ry \<noteq> 0 \<longrightarrow> dx d' = 0 \<and> dy d' = 0)"
    by (rule mp)
  then have e: "\<exists>d'. pmw3610_report_data sample_h ?c0 sample_config 1000 ?d ?w
             = Some (0, d', ?w\<lparr>spi_count := 1,
                    trace := [SpiTransceive 0x12 7, InputReport 2 0 32767 False,
                              InputReport 2 1 3 True]\<rparr>)
           \<and> dx d' = 0 \<and> dy d' = 0"
    unfolding so as Let_def
    by (simp add: report_events_def sample_config_def fresh_world_def zeroed_device_def)
  from a b c d e show ?thesis by blast
qed

section \<open>The init steps do not configure the interrupt\<close>

lemma irq_configs_simps:
  "irq_configs [] = []"
  "irq_configs (xs @ ys) = irq_configs xs @ irq_configs ys"
  "irq_configs (wr h a v # xs) = irq_configs xs"
  "irq_configs (clk_on h # xs) = irq_configs xs"
  "irq_configs (clk_off h # xs) = irq_configs xs"
  "irq_configs (clk_wait h # xs) = irq_configs xs"
  "irq_configs (SpiTransceive a n # xs) = irq_configs xs"
  "irq_configs (WorkSchedule dl # xs) = irq_configs xs"
  "irq_configs (GpioInterruptConfigure en # xs) = GpioInterruptConfigure en # irq_configs xs"
  by (cases en; simp add: irq_configs_def wr_def clk_on_def clk_off_def clk_wait_def)+

lemma pmw3610_write_reg_irq:
  "irq_configs (trace (snd (pmw3610_write_reg h a v w))) = irq_configs (trace w)"
  by (simp add: pmw3610_write_reg_eq irq_configs_simps)

lemma pmw3610_write_irq:
  "irq_configs (trace (snd (pmw3610_write h reg val w))) = irq_configs (trace w)"
  by (simp add: pmw3610_write_eq irq_configs_simps)

lemma pmw3610_read_reg_irq:
  "irq_configs (trace (snd (pmw3610_read_reg a w))) = irq_configs (trace w)"
  by (simp add: pmw3610_read_reg_eq irq_configs_simps)

lemma set_cpi_irq: "irq_configs (trace (snd (set_cpi h n w))) = irq_configs (trace w)"
proof (cases "n > PMW3610_MAX_CPI h \<or> n < PMW3610_MIN_CPI h")
  case True
  then show ?thesis by (simp add: set_cpi_out_of_range)
next
  case False
  then show ?thesis by (simp add: set_cpi_eq Let_def irq_configs_simps)
qed

lemma set_sample_time_irq:
  "irq_configs (trace (snd (set_sample_time h reg t w))) = irq_configs (trace w)"
  by (simp add: set_sample_time_def Let_def pmw3610_write_irq)

lemma set_downshift_time_irq:
  assumes "set_downshift_time h c reg t w = Some (e, w')"
  shows "irq_configs (trace w') = irq_configs (trace w)"
proof (cases "downshift_bounds h c reg")
  case None
  with assms show ?thesis by (simp add: set_downshift_time_def)
next
  case (Some b)
  obtain maxtime mintime where b: "b = (maxtime, mintime)" by (cases b)
  from assms Some b have
    "w' = w \<or> (e, w') = pmw3610_write h reg (ucast (t div mintime)) w"
    by (auto simp add: set_downshift_time_def split: if_splits)
  then show ?thesis
  proof
    assume "w' = w" then show ?thesis by simp
  next
    assume "(e, w') = pmw3610_write h reg (ucast (t div mintime)) w"
    then have "w' = snd (pmw3610_write h reg (ucast (t div mintime)) w)"
      by (metis snd_conv)
    then show ?thesis by (simp add: pmw3610_write_irq)
  qed
qed

lemma clear_motion_regs_irq:
  "irq_configs (trace (snd (clear_motion_regs regs e w))) = irq_configs (trace w)"
proof (induction regs arbitrary: e w)
  case Nil
  show ?case by simp
next
  case (Cons reg regs)
  show ?case
  proof (cases "e = 0")
    case False
    then show ?thesis by simp
  next
    case True
    then show ?thesis
      using Cons.IH [of "spi_ret w (spi_count w)"
          "w\<lparr>spi_count := Suc (spi_count w), trace := trace w @ [SpiTransceive reg 1]\<rparr>"]
      by (simp add: pmw3610_read_reg_eq irq_configs_simps)
  qed
qed

lemma if_no_err_irq:
  assumes res: "Option.bind r (if_no_err f) = Some (e, w')"
    and r: "\<And>e0 w0. r = Some (e0, w0) \<Longrightarrow> irq_configs (trace w0) = X"
    and f: "\<And>w0 e1 w1. f w0 = Some (e1, w1) \<Longrightarrow> irq_configs (trace w1) = irq_configs (trace w0)"
  shows "irq_configs (trace w') = X"
proof (cases r)
  case None
  with res show ?thesis by simp
next
  case (Some p)
  obtain e0 w0 where p: "p = (e0, w0)" by (cases p)
  have x: "irq_configs (trace w0) = X" using r Some p by simp
  show ?thesis
  proof (cases "e0 = 0")
    case True
    with res Some p have "f w0 = Some (e, w')" by (simp add: if_no_err_def)
    then show ?thesis using f x by simp
  next
    case False
    with res Some p have "w' = w0" by (simp add: if_no_err_def)
    then show ?thesis using x by simp
  qed
qed

lemma pmw3610_async_init_configure_irq:
  assumes "pmw3610_async_init_configure h c config w = Some (e, w')"
  shows "irq_configs (trace w') = irq_configs (trace w)"
  using assms unfolding pmw3610_async_init_configure_def
proof (elim if_no_err_irq)
  fix e0 w0 assume "Some (clear_motion_regs [0x02, 0x03, 0x04, 0x05] 0 w) = Some (e0, w0)"
  then have "w0 = snd (clear_motion_regs [0x02, 0x03, 0x04, 0x05] 0 w)"
    by (metis option.inject snd_conv)
  then show "irq_configs (trace w0) = irq_configs (trace w)"
    by (simp only: clear_motion_regs_irq)
next
  fix w0 e1 w1 assume "Some (set_cpi h (cpi config) w0) = Some (e1, w1)"
  then have "w1 = snd (set_cpi h (cpi config) w0)"
    by (metis option.inject snd_conv)
  then show "irq_configs (trace w1) = irq_configs (trace w0)"
    by (simp only: set_cpi_irq)
qed (auto dest: set_downshift_time_irq simp add: set_sample_time_irq
      dest!: arg_cong [where f = snd])

lemma async_init_fn_irq:
  assumes "async_init_fn h c config step w = Some (e, w')"
  shows "irq_configs (trace w') = irq_configs (trace w)"
proof -
  consider "step = 0" | "step = 1" | "step = 2" | "step = 3" | "step \<ge> 4"
    by linarith
  then show ?thesis
  proof cases
    case 1
    with assms have "w' = snd (pmw3610_write_reg h (PMW3610_REG_POWER_UP_RESET h)
        (PMW3610_POWERUP_CMD_RESET h) w)"
      by (auto simp add: async_init_fn_def ASYNC_INIT_STEP_POWER_UP_def
          pmw3610_async_init_power_up_def pmw3610_write_reg_eq split: if_splits)
    then show ?thesis by (simp add: pmw3610_write_reg_irq)
  next
    case 2
    with assms have "w' = snd (pmw3610_write h (PMW3610_REG_OBSERVATION h) 0x00 w)"
      by (simp add: async_init_fn_def ASYNC_INIT_STEP_POWER_UP_def ASYNC_INIT_STEP_CLEAR_OB1_def
          pmw3610_async_init_clear_ob1_def)
    then show ?thesis by (simp add: pmw3610_write_irq)
  next
    case 3
    with assms have "(e, w') = pmw3610_async_init_check_ob1 h w"
      by (simp add: async_init_fn_def ASYNC_INIT_STEP_POWER_UP_def ASYNC_INIT_STEP_CLEAR_OB1_def
          ASYNC_INIT_STEP_CHECK_OB1_def)
    then show ?thesis
      by (auto simp add: pmw3610_async_init_check_ob1_def pmw3610_read_reg_eq irq_configs_simps
          split: if_splits)
  next
    case 4
    with assms have "pmw3610_async_init_configure h c config w = Some (e, w')"
      by (simp add: async_init_fn_def ASYNC_INIT_STEP_POWER_UP_def ASYNC_INIT_STEP_CLEAR_OB1_def
          ASYNC_INIT_STEP_CHECK_OB1_def ASYNC_INIT_STEP_CONFIGURE_def)
    then show ?thesis by (rule pmw3610_async_init_configure_irq)
  next
    case 5
    with assms show ?thesis
      by (simp add: async_init_fn_def ASYNC_INIT_STEP_POWER_UP_def ASYNC_INIT_STEP_CLEAR_OB1_def
          ASYNC_INIT_STEP_CHECK_OB1_def ASYNC_INIT_STEP_CONFIGURE_def)
  qed
qed

text \<open>
  One run of the handler configures the interrupt exactly when it sets \<open>ready\<close>, and
  then it is the enable.
\<close>

lemma pmw3610_async_init_irq:
  assumes run: "pmw3610_async_init h c config d w = Some (d', w')" and nr: "\<not> ready d"
  shows "irq_configs (trace w')
           = irq_configs (trace w) @ (if ready d' then [GpioInterruptConfigure True] else [])"
proof -
  from run obtain e w1 where
    fn: "async_init_fn h c config (async_init_step d) w = Some (e, w1)"
    by (auto simp add: pmw3610_async_init_def split: option.splits)
  note q = async_init_fn_irq [OF fn]
  show ?thesis
  proof (cases "e = 0")
    case False
    with run fn have "d' = d\<lparr>err := e\<rparr>" "w' = w1"
      by (simp_all add: pmw3610_async_init_error)
    with q nr show ?thesis by simp
  next
    case True
    show ?thesis
    proof (cases "Suc (async_init_step d) = 4")
      case True
      with run fn \<open>e = 0\<close> have
        "d' = d\<lparr>err := 0, async_init_step := 4, ready := True\<rparr>" "w' = set_interrupt True w1"
        by (simp_all add: pmw3610_async_init_done)
      with q show ?thesis
        by (simp add: set_interrupt_def emit_def irq_configs_simps)
    next
      case False
      with run fn \<open>e = 0\<close> have
        "d' = d\<lparr>err := 0, async_init_step := Suc (async_init_step d)\<rparr>"
        "w' = k_work_schedule (async_init_delay c ! Suc (async_init_step d)) w1"
        by (simp_all add: pmw3610_async_init_next)
      with q nr show ?thesis
        by (simp add: k_work_schedule_def emit_def irq_configs_simps)
    qed
  qed
qed

lemma init_work_runs_irq:
  assumes d0: "\<not> ready d0" "async_init_step d0 = 0"
    and run: "init_work_runs n h c config d0 w0 = Some (d, w)"
  shows "irq_configs (trace w)
           = irq_configs (trace w0) @ (if ready d then [GpioInterruptConfigure True] else [])"
  using run
proof (induction n arbitrary: d w)
  case 0
  then show ?case using d0 by simp
next
  case (Suc n)
  from Suc.prems obtain dp wp where
    prev: "init_work_runs n h c config d0 w0 = Some (dp, wp)"
    and step: "init_work_run h c config dp wp = Some (d, w)"
    by (auto split: option.splits)
  note IH = Suc.IH [OF prev]
  show ?case
  proof (cases "init_work wp")
    case None
    with step have "d = dp" "w = wp"
      by (simp_all add: init_work_run_def)
    with IH show ?thesis by simp
  next
    case (Some dl)
    with init_work_runs_invariant [OF d0 prev] have nr: "\<not> ready dp"
      by simp
    from Some step have
      ai: "pmw3610_async_init h c config dp (wp\<lparr>init_work := None\<rparr>) = Some (d, w)"
      by (simp add: init_work_run_def)
    from pmw3610_async_init_irq [OF ai nr] IH nr show ?thesis
      by simp
  qed
qed

lemma async_init_runs:
  "(async_init_fn h c config (async_init_step d) w = Some (e, w1) \<and> e \<noteq> 0 \<longrightarrow>
      pmw3610_async_init h c config d w = Some (d\<lparr>err := e\<rparr>, w1)
      \<and> init_work w1 = init_work w)
   \<and> (init_work w \<noteq> None
        \<and> async_init_fn h c config (async_init_step d) (w\<lparr>init_work := None\<rparr>) = Some (e, w1)
        \<and> e \<noteq> 0 \<longrightarrow>
      (\<forall>n. init_work_runs (Suc n) h c config d w = Some (d\<lparr>err := e\<rparr>, w1))
      \<and> init_work w1 = None)
   \<and> (\<not> ready d0 \<and> async_init_step d0 = 0
        \<and> init_work_runs n h c config d0 w0 = Some (dn, wn) \<and> ready dn \<longrightarrow>
      4 \<le> n \<and> async_init_step dn = 4 \<and> err dn = 0
      \<and> (\<forall>i<4. \<exists>di wi wi'. init_work_runs i h c config d0 w0 = Some (di, wi)
              \<and> async_init_step di = i \<and> init_work wi \<noteq> None
              \<and> async_init_fn h c config i (wi\<lparr>init_work := None\<rparr>) = Some (0, wi'))
      \<and> last (trace wn) = GpioInterruptConfigure True)
   \<and> (async_init_step d = ASYNC_INIT_STEP_CHECK_OB1
        \<and> spi_ret w (spi_count w) = 0 \<and> spi_rx w (spi_count w) 0 AND 0x0F = 0x0E \<longrightarrow>
      pmw3610_async_init h c config d w =
        Some (d\<lparr>err := - EINVAL\<rparr>,
              w\<lparr>spi_count := Suc (spi_count w),
                trace := trace w @ [SpiTransceive (PMW3610_REG_OBSERVATION h) 1]\<rparr>))"
proof (intro conjI impI)
  assume a: "async_init_fn h c config (async_init_step d) w = Some (e, w1) \<and> e \<noteq> 0"
  then show "pmw3610_async_init h c config d w = Some (d\<lparr>err := e\<rparr>, w1)"
    by (simp add: pmw3610_async_init_error)
  from a show "init_work w1 = init_work w"
    by (intro async_init_fn_init_work [of h c config "async_init_step d" w e w1]) simp
next
  assume a: "init_work w \<noteq> None
        \<and> async_init_fn h c config (async_init_step d) (w\<lparr>init_work := None\<rparr>) = Some (e, w1)
        \<and> e \<noteq> 0"
  then show "\<forall>n. init_work_runs (Suc n) h c config d w = Some (d\<lparr>err := e\<rparr>, w1)"
    using init_work_runs_stalled [of w h c config d e w1] by simp
  from a show "init_work w1 = None"
    using init_work_runs_stalled [of w h c config d e w1 0] by simp
next
  assume a: "\<not> ready d0 \<and> async_init_step d0 = 0
        \<and> init_work_runs n h c config d0 w0 = Some (dn, wn) \<and> ready dn"
  then have inv: "(init_work wn \<noteq> None \<longrightarrow> \<not> ready dn)
       \<and> (init_work wn = None \<and> ready dn \<longrightarrow>
            4 \<le> n \<and> async_init_step dn = 4 \<and> err dn = 0
            \<and> (\<forall>i<4. \<exists>di wi wi'. init_work_runs i h c config d0 w0 = Some (di, wi)
                   \<and> async_init_step di = i \<and> init_work wi \<noteq> None
                   \<and> async_init_fn h c config i (wi\<lparr>init_work := None\<rparr>) = Some (0, wi'))
            \<and> last (trace wn) = GpioInterruptConfigure True)"
    using init_work_runs_invariant [of d0 n h c config w0 dn wn] by blast
  with a have "init_work wn = None" by blast
  with a inv show "4 \<le> n" "async_init_step dn = 4" "err dn = 0"
    "\<forall>i<4. \<exists>di wi wi'. init_work_runs i h c config d0 w0 = Some (di, wi)
              \<and> async_init_step di = i \<and> init_work wi \<noteq> None
              \<and> async_init_fn h c config i (wi\<lparr>init_work := None\<rparr>) = Some (0, wi')"
    "last (trace wn) = GpioInterruptConfigure True"
    by blast+
next
  assume a: "async_init_step d = ASYNC_INIT_STEP_CHECK_OB1
        \<and> spi_ret w (spi_count w) = 0 \<and> spi_rx w (spi_count w) 0 AND 0x0F = 0x0E"
  then have "async_init_fn h c config (async_init_step d) w =
      Some (- EINVAL, w\<lparr>spi_count := Suc (spi_count w),
                        trace := trace w @ [SpiTransceive (PMW3610_REG_OBSERVATION h) 1]\<rparr>)"
    by (simp add: async_init_fn_def ASYNC_INIT_STEP_POWER_UP_def ASYNC_INIT_STEP_CLEAR_OB1_def
        ASYNC_INIT_STEP_CHECK_OB1_def check_ob1_self_test_failure)
  then show "pmw3610_async_init h c config d w =
        Some (d\<lparr>err := - EINVAL\<rparr>,
              w\<lparr>spi_count := Suc (spi_count w),
                trace := trace w @ [SpiTransceive (PMW3610_REG_OBSERVATION h) 1]\<rparr>)"
    by (rule pmw3610_async_init_error) (simp add: EINVAL_def)
qed


text \<open>
  C2. One run of the init handler whose step function returns a non-zero \<open>e\<close> records
  \<open>e\<close> in \<open>err\<close> and changes nothing else of the device (the step counter and \<open>ready\<close>
  stay), and leaves the world as the step function left it: the work item is not
  scheduled. From then on every turn of the work queue finds nothing to run, so the state
  stays as it is. Starting from a device that is not ready at step 0, \<open>ready\<close> after
  \<open>n\<close> turns means that \<open>n\<close> is at least 4, that for each \<open>i < 4\<close> turn \<open>i\<close> found the
  device at step \<open>i\<close> with the work item pending and the step function returned 0, and
  that the last thing done was to enable the interrupt. A self-test read that succeeds
  with low nibble \<open>0x0E\<close> makes the handler at \<open>ASYNC_INIT_STEP_CHECK_OB1\<close> record
  \<open>-EINVAL\<close>, with the read as the only new trace entry. The interrupt is configured
  only by the run that sets \<open>ready\<close>: after any number of turns the interrupt
  configurations in the trace are those that were there at the start, followed by the
  one enable exactly when the device is ready; so is it for one run of the handler on a
  device that is not ready.
\<close>


theorem async_init_stalls_on_error_and_ready_needs_all_steps:
  "(async_init_fn h c config (async_init_step d) w = Some (e, w1) \<and> e \<noteq> 0 \<longrightarrow>
      pmw3610_async_init h c config d w = Some (d\<lparr>err := e\<rparr>, w1)
      \<and> init_work w1 = init_work w)
   \<and> (init_work w \<noteq> None
        \<and> async_init_fn h c config (async_init_step d) (w\<lparr>init_work := None\<rparr>) = Some (e, w1)
        \<and> e \<noteq> 0 \<longrightarrow>
      (\<forall>n. init_work_runs (Suc n) h c config d w = Some (d\<lparr>err := e\<rparr>, w1))
      \<and> init_work w1 = None)
   \<and> (\<not> ready d0 \<and> async_init_step d0 = 0
        \<and> init_work_runs n h c config d0 w0 = Some (dn, wn) \<and> ready dn \<longrightarrow>
      4 \<le> n \<and> async_init_step dn = 4 \<and> err dn = 0
      \<and> (\<forall>i<4. \<exists>di wi wi'. init_work_runs i h c config d0 w0 = Some (di, wi)
              \<and> async_init_step di = i \<and> init_work wi \<noteq> None
              \<and> async_init_fn h c config i (wi\<lparr>init_work := None\<rparr>) = Some (0, wi'))
      \<and> last (trace wn) = GpioInterruptConfigure True)
   \<and> (async_init_step d = ASYNC_INIT_STEP_CHECK_OB1
        \<and> spi_ret w (spi_count w) = 0 \<and> spi_rx w (spi_count w) 0 AND 0x0F = 0x0E \<longrightarrow>
      pmw3610_async_init h c config d w =
        Some (d\<lparr>err := - EINVAL\<rparr>,
              w\<lparr>spi_count := Suc (spi_count w),
                trace := trace w @ [SpiTransceive (PMW3610_REG_OBSERVATION h) 1]\<rparr>))
   \<and> (\<not> ready d0 \<and> async_init_step d0 = 0
        \<and> init_work_runs n h c config d0 w0 = Some (dn, wn) \<longrightarrow>
      irq_configs (trace wn)
        = irq_configs (trace w0) @ (if ready dn then [GpioInterruptConfigure True] else []))
   \<and> (\<not> ready d \<and> pmw3610_async_init h c config d w = Some (d', w') \<longrightarrow>
      irq_configs (trace w')
        = irq_configs (trace w) @ (if ready d' then [GpioInterruptConfigure True] else []))
   \<and> irq_configs xs
        = filter (\<lambda>e. e = GpioInterruptConfigure True \<or> e = GpioInterruptConfigure False) xs"
proof -
  note o = async_init_runs [of h c config d w e w1 d0 n w0 dn wn]
  have n5: "\<not> ready d0 \<and> async_init_step d0 = 0
        \<and> init_work_runs n h c config d0 w0 = Some (dn, wn) \<longrightarrow>
      irq_configs (trace wn)
        = irq_configs (trace w0) @ (if ready dn then [GpioInterruptConfigure True] else [])"
    using init_work_runs_irq [of d0 n h c config w0 dn wn] by blast
  have n6: "\<not> ready d \<and> pmw3610_async_init h c config d w = Some (d', w') \<longrightarrow>
      irq_configs (trace w')
        = irq_configs (trace w) @ (if ready d' then [GpioInterruptConfigure True] else [])"
    using pmw3610_async_init_irq [of h c config d w d' w'] by blast
  have n7: "irq_configs xs
        = filter (\<lambda>e. e = GpioInterruptConfigure True \<or> e = GpioInterruptConfigure False) xs"
    by (rule irq_configs_def)
  show ?thesis
    by (rule conjI [OF o [THEN conjunct1] conjI [OF o [THEN conjunct2, THEN conjunct1]
          conjI [OF o [THEN conjunct2, THEN conjunct2, THEN conjunct1]
            conjI [OF o [THEN conjunct2, THEN conjunct2, THEN conjunct2]
              conjI [OF n5 conjI [OF n6 n7]]]]]])
qed

theorem async_init_stalls_on_error_and_ready_needs_all_steps_witness:
  "(\<exists>dn wn. init_work_runs 4 sample_h sample_kconfig sample_config zeroed_device
               ((fresh_world (\<lambda>k. 0) (\<lambda>k i. if k = 4 then 0x0F else 0x3E))
                  \<lparr>init_work := Some 10\<rparr>) = Some (dn, wn)
            \<and> ready dn \<and> async_init_step dn = 4 \<and> err dn = 0
            \<and> last (trace wn) = GpioInterruptConfigure True
            \<and> irq_configs (trace wn) = [GpioInterruptConfigure True])
   \<and> pmw3610_async_init sample_h sample_kconfig sample_config
        (zeroed_device\<lparr>async_init_step := 2\<rparr>)
        ((fresh_world (\<lambda>k. 0) (\<lambda>k i. 0x0E))\<lparr>spi_count := 4\<rparr>)
      = Some (zeroed_device\<lparr>async_init_step := 2, err := - 22\<rparr>,
              (fresh_world (\<lambda>k. 0) (\<lambda>k i. 0x0E))
                \<lparr>spi_count := 5, trace := [SpiTransceive 0x2D 1]\<rparr>)
   \<and> init_work_runs 7 sample_h sample_kconfig sample_config
        (zeroed_device\<lparr>async_init_step := 2\<rparr>)
        ((fresh_world (\<lambda>k. 0) (\<lambda>k i. 0x0E))\<lparr>spi_count := 4, init_work := Some 50\<rparr>)
      = Some (zeroed_device\<lparr>async_init_step := 2, err := - 22\<rparr>,
              (fresh_world (\<lambda>k. 0) (\<lambda>k i. 0x0E))
                \<lparr>spi_count := 5, trace := [SpiTransceive 0x2D 1]\<rparr>)"
proof -
  let ?w0 = "(fresh_world (\<lambda>k. 0) (\<lambda>k i. if k = 4 then 0x0F else 0x3E))\<lparr>init_work := Some 10\<rparr>"
  let ?d2 = "zeroed_device\<lparr>async_init_step := 2\<rparr>"
  let ?w2 = "(fresh_world (\<lambda>k. 0) (\<lambda>k i. 0x0E))\<lparr>spi_count := 4\<rparr>"
  let ?w3 = "(fresh_world (\<lambda>k. 0) (\<lambda>k i. 0x0E))\<lparr>spi_count := 5, trace := [SpiTransceive 0x2D 1]\<rparr>"
  have "(case init_work_runs 4 sample_h sample_kconfig sample_config zeroed_device ?w0
         of None \<Rightarrow> False | Some (d, w) \<Rightarrow> ready d)"
    by code_simp
  then obtain dn wn where
    run: "init_work_runs 4 sample_h sample_kconfig sample_config zeroed_device ?w0 = Some (dn, wn)"
    and rdy: "ready dn"
    by (auto split: option.splits)
  have z: "\<not> ready zeroed_device" "async_init_step zeroed_device = 0"
    by (simp_all add: zeroed_device_def)
  have "async_init_step dn = 4 \<and> err dn = 0 \<and> last (trace wn) = GpioInterruptConfigure True"
    using async_init_stalls_on_error_and_ready_needs_all_steps
        [where ?d0.0 = zeroed_device and n = 4 and h = sample_h and c = sample_kconfig
           and config = sample_config and ?w0.0 = ?w0 and dn = dn and wn = wn,
         THEN conjunct2, THEN conjunct2, THEN conjunct1]
      z run rdy
    by blast
  moreover have "irq_configs (trace wn)
      = irq_configs (trace ?w0) @ (if ready dn then [GpioInterruptConfigure True] else [])"
    using async_init_stalls_on_error_and_ready_needs_all_steps
        [where ?d0.0 = zeroed_device and n = 4 and h = sample_h and c = sample_kconfig
           and config = sample_config and ?w0.0 = ?w0 and dn = dn and wn = wn,
         THEN conjunct2, THEN conjunct2, THEN conjunct2, THEN conjunct2, THEN conjunct1]
      z run
    by blast
  then have "irq_configs (trace wn) = [GpioInterruptConfigure True]"
    using rdy by (simp add: fresh_world_def irq_configs_def)
  ultimately have "async_init_step dn = 4 \<and> err dn = 0
      \<and> last (trace wn) = GpioInterruptConfigure True
      \<and> irq_configs (trace wn) = [GpioInterruptConfigure True]"
    by simp
  with run rdy have first: "\<exists>dn wn. init_work_runs 4 sample_h sample_kconfig sample_config
        zeroed_device ?w0 = Some (dn, wn)
      \<and> ready dn \<and> async_init_step dn = 4 \<and> err dn = 0
      \<and> last (trace wn) = GpioInterruptConfigure True
      \<and> irq_configs (trace wn) = [GpioInterruptConfigure True]"
    by blast
  have c: "async_init_step ?d2 = ASYNC_INIT_STEP_CHECK_OB1
      \<and> spi_ret ?w2 (spi_count ?w2) = 0 \<and> spi_rx ?w2 (spi_count ?w2) 0 AND 0x0F = 0x0E"
    by (simp add: ASYNC_INIT_STEP_CHECK_OB1_def fresh_world_def)
  have second: "pmw3610_async_init sample_h sample_kconfig sample_config ?d2 ?w2
      = Some (?d2\<lparr>err := - 22\<rparr>, ?w3)"
    using async_init_stalls_on_error_and_ready_needs_all_steps
        [where d = ?d2 and w = ?w2 and h = sample_h and c = sample_kconfig
           and config = sample_config,
         THEN conjunct2, THEN conjunct2, THEN conjunct2, THEN conjunct1] c
    by (simp add: EINVAL_def sample_h_def fresh_world_def)
  have fn: "async_init_fn sample_h sample_kconfig sample_config (async_init_step ?d2)
      ((?w2\<lparr>init_work := Some 50\<rparr>)\<lparr>init_work := None\<rparr>) = Some (- 22, ?w3)"
    by (simp add: async_init_fn_def ASYNC_INIT_STEP_POWER_UP_def ASYNC_INIT_STEP_CLEAR_OB1_def
        ASYNC_INIT_STEP_CHECK_OB1_def check_ob1_self_test_failure EINVAL_def fresh_world_def
        sample_h_def)
  have "\<forall>n. init_work_runs (Suc n) sample_h sample_kconfig sample_config ?d2
            (?w2\<lparr>init_work := Some 50\<rparr>) = Some (?d2\<lparr>err := - 22\<rparr>, ?w3)"
    using async_init_stalls_on_error_and_ready_needs_all_steps
        [where d = ?d2 and w = "?w2\<lparr>init_work := Some 50\<rparr>" and h = sample_h
           and c = sample_kconfig and config = sample_config and e = "- 22" and ?w1.0 = ?w3,
         THEN conjunct2, THEN conjunct1] fn
    by simp
  then have "init_work_runs (Suc 6) sample_h sample_kconfig sample_config ?d2
            (?w2\<lparr>init_work := Some 50\<rparr>) = Some (?d2\<lparr>err := - 22\<rparr>, ?w3)"
    by (rule spec)
  then have third: "init_work_runs 7 sample_h sample_kconfig sample_config ?d2
            (?w2\<lparr>init_work := Some 50\<rparr>) = Some (?d2\<lparr>err := - 22\<rparr>, ?w3)"
    by (simp only: eval_nat_numeral One_nat_def)
  from first second third show ?thesis by simp
qed

end
